theory Spec2Isabelle
  imports Main "HOL-Library.Multiset"
begin

section \<open>Knowledge Platform MCP server: tool handlers and dispatch\<close>

text \<open>
  A shallow embedding of the two transport bindings of the MCP server,
  \<^verbatim>\<open>apps/mcp-server/src/index.ts\<close> (stdio) and \<^verbatim>\<open>apps/mcp-server/src/sse-server.ts\<close>
  (SSE over HTTP). Definitions named as in the source embed \<^verbatim>\<open>index.ts\<close>; those with the
  prefix \<open>sse_\<close> embed the function of the same name in \<^verbatim>\<open>sse-server.ts\<close>.

  The search engine is an external collaborator: it is a parameter of every handler
  (a record of its two operations), and every handler returns, next to its outcome, the
  list of backend calls it made, in order. A thrown exception or rejected promise is the
  left injection of a sum. Logging is not modelled.
\<close>

subsection \<open>JavaScript values\<close>

text \<open>
  The values the handlers receive from the backend and hand to \<^verbatim>\<open>JSON.stringify\<close>.
  Numbers are integers; a string is the list of its UTF-16 code units, each an ASCII
  character here. An object is the list of its own properties in enumeration order.
\<close>

datatype jsval =
    JUndefined
  | JNull
  | JBool bool
  | JNum int
  | JStr string
  | JArr "jsval list"
  | JObj "(string \<times> jsval) list"

type_synonym jsobject = "(string \<times> jsval) list"

text \<open>Truthiness, as the operator \<^verbatim>\<open>||\<close> and \<^verbatim>\<open>if\<close> test it.\<close>

fun truthy :: "jsval \<Rightarrow> bool" where
  "truthy JUndefined = False"
| "truthy JNull = False"
| "truthy (JBool b) = b"
| "truthy (JNum n) = (n \<noteq> 0)"
| "truthy (JStr s) = (s \<noteq> [])"
| "truthy (JArr xs) = True"
| "truthy (JObj ps) = True"

text \<open>\<^verbatim>\<open>a || b\<close> on values that are already evaluated.\<close>

definition js_or :: "jsval \<Rightarrow> jsval \<Rightarrow> jsval" where
  "js_or a b = (if truthy a then a else b)"

text \<open>\<^verbatim>\<open>hit.k\<close> on an object: the property, or \<^verbatim>\<open>undefined\<close> when it is absent.\<close>

definition get_prop :: "jsobject \<Rightarrow> string \<Rightarrow> jsval" where
  "get_prop ob k = (case map_of ob k of None \<Rightarrow> JUndefined | Some v \<Rightarrow> v)"

text \<open>
  \<^verbatim>\<open>v?.k\<close> for the keys \<^verbatim>\<open>description\<close> and \<^verbatim>\<open>content\<close>: \<^verbatim>\<open>undefined\<close> on
  \<^verbatim>\<open>undefined\<close> and \<^verbatim>\<open>null\<close>, the property on an object, and \<^verbatim>\<open>undefined\<close> on a
  primitive or an array, which have no property of these names.
\<close>

fun opt_prop :: "jsval \<Rightarrow> string \<Rightarrow> jsval" where
  "opt_prop (JObj ob) k = get_prop ob k"
| "opt_prop v k = JUndefined"

subsection \<open>Failures\<close>

text \<open>
  What a handler can throw: an \<^verbatim>\<open>Error\<close> it creates itself, a \<^verbatim>\<open>TypeError\<close> of the
  language, or a rejection of the search client, of which the model tells apart the
  engine's answer that a document does not exist, an unreachable engine, and any other
  engine error. Each carries its \<^verbatim>\<open>message\<close>.
\<close>

datatype failure =
    JsError string
  | JsTypeError string
  | MeiliNotFound string
  | MeiliUnavailable string
  | MeiliOther string

fun message :: "failure \<Rightarrow> string" where
  "message (JsError m) = m"
| "message (JsTypeError m) = m"
| "message (MeiliNotFound m) = m"
| "message (MeiliUnavailable m) = m"
| "message (MeiliOther m) = m"

fun is_not_found_signal :: "failure \<Rightarrow> bool" where
  "is_not_found_signal (MeiliNotFound m) = True"
| "is_not_found_signal e = False"

text \<open>
  \<^verbatim>\<open>v?.slice(0, 300)\<close>: \<^verbatim>\<open>undefined\<close> on \<^verbatim>\<open>undefined\<close> and \<^verbatim>\<open>null\<close>, the first 300 code
  units of a string, the first 300 elements of an array; any other value has no callable
  \<^verbatim>\<open>slice\<close>, and the call throws (the message is the one V8 prints).
\<close>

fun opt_slice300 :: "jsval \<Rightarrow> failure + jsval" where
  "opt_slice300 JUndefined = Inr JUndefined"
| "opt_slice300 JNull = Inr JUndefined"
| "opt_slice300 (JStr s) = Inr (JStr (take 300 s))"
| "opt_slice300 (JArr xs) = Inr (JArr (take 300 xs))"
| "opt_slice300 v = Inl (JsTypeError ''hit._formatted?.content?.slice is not a function'')"

text \<open>\<^verbatim>\<open>Array.prototype.map\<close> with a callback that may throw: the first throw ends it.\<close>

fun map_throwing :: "('a \<Rightarrow> failure + 'b) \<Rightarrow> 'a list \<Rightarrow> failure + 'b list" where
  "map_throwing f [] = Inr []"
| "map_throwing f (x # xs) =
     (case f x of
        Inl e \<Rightarrow> Inl e
      | Inr y \<Rightarrow> (case map_throwing f xs of Inl e \<Rightarrow> Inl e | Inr ys \<Rightarrow> Inr (y # ys)))"

text \<open>\<^verbatim>\<open>Array.prototype.join\<close> on strings.\<close>

fun join :: "string \<Rightarrow> string list \<Rightarrow> string" where
  "join sep [] = []"
| "join sep [x] = x"
| "join sep (x # y # ys) = x @ sep @ join sep (y # ys)"

text \<open>A template literal prints an absent string as \<^verbatim>\<open>undefined\<close>.\<close>

definition template_str :: "string option \<Rightarrow> string" where
  "template_str s = (case s of None \<Rightarrow> ''undefined'' | Some t \<Rightarrow> t)"

subsection \<open>Configuration, arguments and the backend\<close>

record config =
  indexName :: string
  chunksIndexName :: string

text \<open>
  The \<^verbatim>\<open>arguments\<close> object of a tool call, which the dispatcher casts to \<^verbatim>\<open>any\<close> and
  passes to whichever handler is named. Each parameter the five handlers read is a
  field, \<open>None\<close> when the caller left it out; a present parameter has the type the
  handler's signature declares. The object itself is taken to be present.
\<close>

record tool_args =
  query_arg :: "string option"
  limit_arg :: "int option"
  tags_arg :: "string list option"
  document_id_arg :: "string option"
  id_arg :: "string option"
  question_arg :: "string option"

text \<open>The options object of \<^verbatim>\<open>index.search\<close>; \<open>None\<close> is a key that is not set.\<close>

record search_params =
  limit :: "int option"
  attributesToHighlight :: "string list option"
  highlightPreTag :: "string option"
  highlightPostTag :: "string option"
  attributesToRetrieve :: "string list option"
  filter_expr :: "string option"
  facets :: "string list option"

definition no_params :: search_params where
  "no_params = \<lparr>limit = None, attributesToHighlight = None, highlightPreTag = None,
     highlightPostTag = None, attributesToRetrieve = None, filter_expr = None,
     facets = None\<rparr>"

text \<open>
  What \<^verbatim>\<open>index.search\<close> resolves to. The facet distribution maps a facet name to the
  object of its counts, whose properties are listed in the order in which
  \<^verbatim>\<open>Object.entries\<close> enumerates them.
\<close>

record search_response =
  estimatedTotalHits :: jsval
  hits :: "jsobject list"
  facetDistribution :: "(string \<times> (string \<times> int) list) list option"

text \<open>
  The backend: \<^verbatim>\<open>meili.index(name).getDocument(id)\<close> and
  \<^verbatim>\<open>meili.index(name).search(query, params)\<close>, each resolving or rejecting.
\<close>

record backend =
  getDocument :: "string \<Rightarrow> string option \<Rightarrow> failure + jsval"
  search :: "string \<Rightarrow> string option \<Rightarrow> search_params \<Rightarrow> failure + search_response"

datatype call =
    GetDocumentCall string "string option"
  | SearchCall string "string option" search_params

subsection \<open>\<^verbatim>\<open>index.ts\<close>: search_docs\<close>

record docs_result =
  total :: jsval
  results :: "jsobject list"

text \<open>\<^verbatim>\<open>tags.map((t) => `tags = "${t}"`).join(" OR ")\<close>\<close>

definition tag_clause :: "string \<Rightarrow> string" where
  \<open>tag_clause t = ''tags = "'' @ t @ ''"''\<close>

definition tags_filter :: "string list \<Rightarrow> string" where
  "tags_filter ts = join '' OR '' (map tag_clause ts)"

definition searchDocs_params :: "tool_args \<Rightarrow> search_params" where
  "searchDocs_params args =
     (let lim = (case limit_arg args of None \<Rightarrow> 10 | Some l \<Rightarrow> l);
          searchParams = no_params\<lparr>
            limit := Some (min lim 50),
            attributesToHighlight := Some [''content'', ''title'', ''description''],
            highlightPreTag := Some ''**'',
            highlightPostTag := Some ''**'',
            attributesToRetrieve := Some [''id'', ''title'', ''path'', ''description'',
              ''tags'', ''source_url'', ''updated_at'']\<rparr>
      in case tags_arg args of
           None \<Rightarrow> searchParams
         | Some ts \<Rightarrow>
             if length ts > 0 then searchParams\<lparr>filter_expr := Some (tags_filter ts)\<rparr>
             else searchParams)"

text \<open>
  \<^verbatim>\<open>hit._formatted?.description || hit._formatted?.content?.slice(0, 300) || ""\<close>:
  the right operand of the first \<^verbatim>\<open>||\<close> is evaluated only when the left one is falsy.
\<close>

definition snippet :: "jsobject \<Rightarrow> failure + jsval" where
  "snippet hit =
     (let d = opt_prop (get_prop hit ''_formatted'') ''description''
      in if truthy d then Inr d
         else (case opt_slice300 (opt_prop (get_prop hit ''_formatted'') ''content'') of
                 Inl e \<Rightarrow> Inl e
               | Inr c \<Rightarrow> Inr (js_or c (JStr ''''))))"

definition normalize_doc :: "jsobject \<Rightarrow> failure + jsobject" where
  "normalize_doc hit =
     (case snippet hit of
        Inl e \<Rightarrow> Inl e
      | Inr s \<Rightarrow> Inr
          [(''id'', get_prop hit ''id''),
           (''title'', get_prop hit ''title''),
           (''path'', get_prop hit ''path''),
           (''description'', js_or (get_prop hit ''description'') (JStr '''')),
           (''tags'', js_or (get_prop hit ''tags'') (JArr [])),
           (''source_url'', get_prop hit ''source_url''),
           (''updated_at'', get_prop hit ''updated_at''),
           (''snippet'', s)])"

definition handleSearchDocs ::
  "config \<Rightarrow> backend \<Rightarrow> tool_args \<Rightarrow> call list \<times> (failure + docs_result)" where
  "handleSearchDocs cfg b args =
     (let searchParams = searchDocs_params args;
          c = SearchCall (indexName cfg) (query_arg args) searchParams
      in case search b (indexName cfg) (query_arg args) searchParams of
           Inl e \<Rightarrow> ([c], Inl e)
         | Inr r \<Rightarrow>
             (case map_throwing normalize_doc (hits r) of
                Inl e \<Rightarrow> ([c], Inl e)
              | Inr ds \<Rightarrow> ([c], Inr \<lparr>total = estimatedTotalHits r, results = ds\<rparr>)))"

text \<open>The object literal a search handler returns, as a value.\<close>

definition docs_result_val :: "docs_result \<Rightarrow> jsval" where
  "docs_result_val r = JObj [(''total'', total r), (''results'', JArr (map JObj (results r)))]"

subsection \<open>\<^verbatim>\<open>index.ts\<close>: search_chunks\<close>

record chunks_result =
  chunks_total :: jsval
  chunks :: "jsobject list"

text \<open>\<^verbatim>\<open>if (document_id)\<close> holds for a string that is present and not empty.\<close>

definition document_filter :: "string \<Rightarrow> string" where
  \<open>document_filter d = ''document_id = "'' @ d @ ''"''\<close>

definition with_document_filter :: "string option \<Rightarrow> search_params \<Rightarrow> search_params" where
  "with_document_filter document_id searchParams =
     (case document_id of
        None \<Rightarrow> searchParams
      | Some d \<Rightarrow>
          if d \<noteq> [] then searchParams\<lparr>filter_expr := Some (document_filter d)\<rparr>
          else searchParams)"

definition searchChunks_params :: "tool_args \<Rightarrow> search_params" where
  "searchChunks_params args =
     (let lim = (case limit_arg args of None \<Rightarrow> 10 | Some l \<Rightarrow> l);
          searchParams = no_params\<lparr>
            limit := Some (min lim 50),
            attributesToHighlight := Some [''content''],
            highlightPreTag := Some ''**'',
            highlightPostTag := Some ''**''\<rparr>
      in with_document_filter (document_id_arg args) searchParams)"

definition normalize_chunk :: "jsobject \<Rightarrow> jsobject" where
  "normalize_chunk hit =
     [(''id'', get_prop hit ''id''),
      (''document_id'', get_prop hit ''document_id''),
      (''title'', get_prop hit ''title''),
      (''path'', get_prop hit ''path''),
      (''content'', js_or (opt_prop (get_prop hit ''_formatted'') ''content'')
                      (get_prop hit ''content'')),
      (''chunk_index'', get_prop hit ''chunk_index''),
      (''total_chunks'', get_prop hit ''total_chunks'')]"

definition handleSearchChunks ::
  "config \<Rightarrow> backend \<Rightarrow> tool_args \<Rightarrow> call list \<times> (failure + chunks_result)" where
  "handleSearchChunks cfg b args =
     (let searchParams = searchChunks_params args;
          c = SearchCall (chunksIndexName cfg) (query_arg args) searchParams
      in case search b (chunksIndexName cfg) (query_arg args) searchParams of
           Inl e \<Rightarrow> ([c], Inl e)
         | Inr r \<Rightarrow> ([c], Inr \<lparr>chunks_total = estimatedTotalHits r,
                                chunks = map normalize_chunk (hits r)\<rparr>))"

definition chunks_result_val :: "chunks_result \<Rightarrow> jsval" where
  "chunks_result_val r =
     JObj [(''total'', chunks_total r), (''chunks'', JArr (map JObj (chunks r)))]"

subsection \<open>\<^verbatim>\<open>index.ts\<close>: get_document\<close>

text \<open>
  The \<^verbatim>\<open>catch\<close> clause has no test on the error: every rejection of the direct lookup
  leads to the search by path.
\<close>

definition path_params :: "string option \<Rightarrow> search_params" where
  \<open>path_params id' =
     no_params\<lparr>filter_expr := Some (''path = "'' @ template_str id' @ ''"''),
                limit := Some 1\<rparr>\<close>

definition handleGetDocument ::
  "config \<Rightarrow> backend \<Rightarrow> tool_args \<Rightarrow> call list \<times> (failure + jsval)" where
  "handleGetDocument cfg b args =
     (let id' = id_arg args;
          g = GetDocumentCall (indexName cfg) id'
      in case getDocument b (indexName cfg) id' of
           Inr doc \<Rightarrow> ([g], Inr doc)
         | Inl error \<Rightarrow>
             (let s = SearchCall (indexName cfg) (Some '''') (path_params id')
              in case search b (indexName cfg) (Some '''') (path_params id') of
                   Inl e \<Rightarrow> ([g, s], Inl e)
                 | Inr r \<Rightarrow>
                     (case hits r of
                        h # hs \<Rightarrow> ([g, s], Inr (JObj h))
                      | [] \<Rightarrow> ([g, s],
                          Inl (JsError (''Document not found: '' @ template_str id'))))))"

subsection \<open>\<^verbatim>\<open>index.ts\<close>: list_tags\<close>

text \<open>
  \<^verbatim>\<open>Array.prototype.sort\<close> with a comparator. The language requires the sort to be
  stable, and for a comparator that orders by a key every stable sort gives the same
  list, so it is modelled by insertion from the right: an element goes in front of the
  first one it does not have to follow.
\<close>

fun insert_by :: "('a \<Rightarrow> 'a \<Rightarrow> int) \<Rightarrow> 'a \<Rightarrow> 'a list \<Rightarrow> 'a list" where
  "insert_by cmp x [] = [x]"
| "insert_by cmp x (y # ys) =
     (if cmp x y \<le> 0 then x # y # ys else y # insert_by cmp x ys)"

definition js_sort :: "('a \<Rightarrow> 'a \<Rightarrow> int) \<Rightarrow> 'a list \<Rightarrow> 'a list" where
  "js_sort cmp xs = foldr (insert_by cmp) xs []"

record tag_count =
  tag :: string
  tcount :: int

definition tags_params :: search_params where
  "tags_params = no_params\<lparr>facets := Some [''tags''], limit := Some 0\<rparr>"

text \<open>\<^verbatim>\<open>results.facetDistribution?.tags || {}\<close>; an object is truthy, also an empty one.\<close>

definition tagCounts :: "search_response \<Rightarrow> (string \<times> int) list" where
  "tagCounts r =
     (case facetDistribution r of
        None \<Rightarrow> []
      | Some fd \<Rightarrow> (case map_of fd ''tags'' of None \<Rightarrow> [] | Some tc \<Rightarrow> tc))"

definition sorted_tags :: "(string \<times> int) list \<Rightarrow> tag_count list" where
  "sorted_tags tc =
     js_sort (\<lambda>a b. tcount b - tcount a) (map (\<lambda>(t, c). \<lparr>tag = t, tcount = c\<rparr>) tc)"

definition tag_count_val :: "tag_count \<Rightarrow> jsval" where
  "tag_count_val e = JObj [(''tag'', JStr (tag e)), (''count'', JNum (tcount e))]"

definition handleListTags :: "config \<Rightarrow> backend \<Rightarrow> call list \<times> (failure + jsval)" where
  "handleListTags cfg b =
     (let c = SearchCall (indexName cfg) (Some '''') tags_params
      in case search b (indexName cfg) (Some '''') tags_params of
           Inl e \<Rightarrow> ([c], Inl e)
         | Inr r \<Rightarrow>
             ([c], Inr (JObj [(''tags'', JArr (map tag_count_val (sorted_tags (tagCounts r))))])))"

subsection \<open>\<^verbatim>\<open>index.ts\<close>: lookup_decision\<close>

definition no_args :: tool_args where
  "no_args = \<lparr>query_arg = None, limit_arg = None, tags_arg = None,
     document_id_arg = None, id_arg = None, question_arg = None\<rparr>"

definition str_val :: "string option \<Rightarrow> jsval" where
  "str_val s = (case s of None \<Rightarrow> JUndefined | Some t \<Rightarrow> JStr t)"

definition evidence :: "jsobject \<Rightarrow> jsval" where
  "evidence doc =
     JObj [(''title'', get_prop doc ''title''),
           (''path'', get_prop doc ''path''),
           (''description'', get_prop doc ''description''),
           (''tags'', get_prop doc ''tags''),
           (''source_url'', get_prop doc ''source_url''),
           (''snippet'', get_prop doc ''snippet'')]"

definition not_found_val :: jsval where
  "not_found_val =
     JObj [(''found'', JBool False),
           (''message'', JStr ''No relevant decisions found for this question.''),
           (''suggestion'', JStr
              ''Try rephrasing your question or use search_docs with different keywords.'')]"

definition synthesis_note :: string where
  "synthesis_note =
     ''Synthesize an answer from these documents. If the answer is unclear, say so.''"

definition handleLookupDecision ::
  "config \<Rightarrow> backend \<Rightarrow> tool_args \<Rightarrow> call list \<times> (failure + jsval)" where
  "handleLookupDecision cfg b args =
     (let question = question_arg args
      in case handleSearchDocs cfg b (no_args\<lparr>query_arg := question, limit_arg := Some 5\<rparr>) of
           (cs, Inl e) \<Rightarrow> (cs, Inl e)
         | (cs, Inr res) \<Rightarrow>
             if length (results res) = 0 then (cs, Inr not_found_val)
             else (cs, Inr (JObj
               [(''found'', JBool True),
                (''question'', str_val question),
                (''relevant_documents'', JArr (map evidence (results res))),
                (''note'', JStr synthesis_note)])))"

subsection \<open>\<^verbatim>\<open>index.ts\<close>: the tool registry and the dispatcher\<close>

text \<open>
  A tool descriptor: its name, the parameters of its input schema (name, type and
  declared default) and the names the schema requires. The description, free text for
  the reader, is left out.
\<close>

datatype schema_type = TString | TNumber | TArray schema_type

record tool =
  name :: string
  properties :: "(string \<times> schema_type \<times> int option) list"
  required :: "string list"

definition tools :: "tool list" where
  "tools =
     [\<lparr>name = ''search_docs'',
       properties = [(''query'', TString, None), (''limit'', TNumber, Some 10),
                     (''tags'', TArray TString, None)],
       required = [''query'']\<rparr>,
      \<lparr>name = ''search_chunks'',
       properties = [(''query'', TString, None), (''limit'', TNumber, Some 10),
                     (''document_id'', TString, None)],
       required = [''query'']\<rparr>,
      \<lparr>name = ''get_document'',
       properties = [(''id'', TString, None)],
       required = [''id'']\<rparr>,
      \<lparr>name = ''list_tags'',
       properties = [],
       required = []\<rparr>,
      \<lparr>name = ''lookup_decision'',
       properties = [(''question'', TString, None)],
       required = [''question'']\<rparr>]"

text \<open>
  The response of a tool call. The text of its one content item is
  \<^verbatim>\<open>JSON.stringify\<close> of a value; the model keeps the value. \<open>isError\<close> is \<open>None\<close> where
  the key is not set.
\<close>

datatype content_item = TextContent jsval

record envelope =
  content :: "content_item list"
  isError :: "bool option"

definition success_envelope :: "jsval \<Rightarrow> envelope" where
  "success_envelope v = \<lparr>content = [TextContent v], isError = None\<rparr>"

definition error_envelope :: "string \<Rightarrow> envelope" where
  "error_envelope m =
     \<lparr>content = [TextContent (JObj [(''error'', JStr m)])], isError = Some True\<rparr>"

definition wrap :: "('a \<Rightarrow> jsval) \<Rightarrow> call list \<times> (failure + 'a) \<Rightarrow> call list \<times> (failure + jsval)" where
  "wrap f out = (case out of (cs, Inl e) \<Rightarrow> (cs, Inl e) | (cs, Inr v) \<Rightarrow> (cs, Inr (f v)))"

text \<open>The \<^verbatim>\<open>switch\<close> inside the \<^verbatim>\<open>try\<close> block.\<close>

definition callTool_switch ::
  "config \<Rightarrow> backend \<Rightarrow> string \<Rightarrow> tool_args \<Rightarrow> call list \<times> (failure + jsval)" where
  "callTool_switch cfg b nm args =
     (if nm = ''search_docs'' then wrap docs_result_val (handleSearchDocs cfg b args)
      else if nm = ''search_chunks'' then wrap chunks_result_val (handleSearchChunks cfg b args)
      else if nm = ''get_document'' then handleGetDocument cfg b args
      else if nm = ''list_tags'' then handleListTags cfg b
      else if nm = ''lookup_decision'' then handleLookupDecision cfg b args
      else ([], Inl (JsError (''Unknown tool: '' @ nm))))"

text \<open>The handler of \<^verbatim>\<open>CallToolRequestSchema\<close>: the \<^verbatim>\<open>try\<close> block and its \<^verbatim>\<open>catch\<close>.\<close>

definition callTool :: "config \<Rightarrow> backend \<Rightarrow> string \<Rightarrow> tool_args \<Rightarrow> call list \<times> envelope" where
  "callTool cfg b nm args =
     (case callTool_switch cfg b nm args of
        (cs, Inr result) \<Rightarrow> (cs, success_envelope result)
      | (cs, Inl error) \<Rightarrow> (cs, error_envelope (message error)))"

subsection \<open>\<^verbatim>\<open>sse-server.ts\<close>\<close>

definition sse_tools :: "tool list" where
  "sse_tools =
     [\<lparr>name = ''search_docs'',
       properties = [(''query'', TString, None), (''limit'', TNumber, None),
                     (''tags'', TArray TString, None)],
       required = [''query'']\<rparr>,
      \<lparr>name = ''search_chunks'',
       properties = [(''query'', TString, None), (''limit'', TNumber, None),
                     (''document_id'', TString, None)],
       required = [''query'']\<rparr>,
      \<lparr>name = ''get_document'',
       properties = [(''id'', TString, None)],
       required = [''id'']\<rparr>,
      \<lparr>name = ''lookup_decision'',
       properties = [(''question'', TString, None)],
       required = [''question'']\<rparr>]"

text \<open>\<^verbatim>\<open>tags?.length\<close> is truthy for a list that is present and not empty.\<close>

definition sse_searchDocs_params :: "tool_args \<Rightarrow> search_params" where
  "sse_searchDocs_params args =
     (let lim = (case limit_arg args of None \<Rightarrow> 10 | Some l \<Rightarrow> l);
          searchParams = no_params\<lparr>
            limit := Some (min lim 50),
            attributesToHighlight := Some [''content'', ''title''],
            highlightPreTag := Some ''**'',
            highlightPostTag := Some ''**''\<rparr>
      in case tags_arg args of
           None \<Rightarrow> searchParams
         | Some ts \<Rightarrow>
             if length ts \<noteq> 0 then searchParams\<lparr>filter_expr := Some (tags_filter ts)\<rparr>
             else searchParams)"

text \<open>\<^verbatim>\<open>hit._formatted?.content?.slice(0, 300) || ""\<close>\<close>

definition sse_snippet :: "jsobject \<Rightarrow> failure + jsval" where
  "sse_snippet hit =
     (case opt_slice300 (opt_prop (get_prop hit ''_formatted'') ''content'') of
        Inl e \<Rightarrow> Inl e
      | Inr c \<Rightarrow> Inr (js_or c (JStr '''')))"

definition sse_normalize_doc :: "jsobject \<Rightarrow> failure + jsobject" where
  "sse_normalize_doc hit =
     (case sse_snippet hit of
        Inl e \<Rightarrow> Inl e
      | Inr s \<Rightarrow> Inr
          [(''id'', get_prop hit ''id''),
           (''title'', get_prop hit ''title''),
           (''path'', get_prop hit ''path''),
           (''tags'', js_or (get_prop hit ''tags'') (JArr [])),
           (''snippet'', s)])"

definition sse_handleSearchDocs ::
  "config \<Rightarrow> backend \<Rightarrow> tool_args \<Rightarrow> call list \<times> (failure + docs_result)" where
  "sse_handleSearchDocs cfg b args =
     (let searchParams = sse_searchDocs_params args;
          c = SearchCall (indexName cfg) (query_arg args) searchParams
      in case search b (indexName cfg) (query_arg args) searchParams of
           Inl e \<Rightarrow> ([c], Inl e)
         | Inr r \<Rightarrow>
             (case map_throwing sse_normalize_doc (hits r) of
                Inl e \<Rightarrow> ([c], Inl e)
              | Inr ds \<Rightarrow> ([c], Inr \<lparr>total = estimatedTotalHits r, results = ds\<rparr>)))"

text \<open>\<^verbatim>\<open>const searchParams: any = { limit }\<close>: the limit goes to the backend as it is.\<close>

definition sse_searchChunks_params :: "tool_args \<Rightarrow> search_params" where
  "sse_searchChunks_params args =
     (let lim = (case limit_arg args of None \<Rightarrow> 10 | Some l \<Rightarrow> l);
          searchParams = no_params\<lparr>limit := Some lim\<rparr>
      in with_document_filter (document_id_arg args) searchParams)"

definition sse_handleSearchChunks ::
  "config \<Rightarrow> backend \<Rightarrow> tool_args \<Rightarrow> call list \<times> (failure + chunks_result)" where
  "sse_handleSearchChunks cfg b args =
     (let searchParams = sse_searchChunks_params args;
          c = SearchCall (chunksIndexName cfg) (query_arg args) searchParams
      in case search b (chunksIndexName cfg) (query_arg args) searchParams of
           Inl e \<Rightarrow> ([c], Inl e)
         | Inr r \<Rightarrow> ([c], Inr \<lparr>chunks_total = estimatedTotalHits r, chunks = hits r\<rparr>))"

definition sse_handleGetDocument ::
  "config \<Rightarrow> backend \<Rightarrow> tool_args \<Rightarrow> call list \<times> (failure + jsval)" where
  "sse_handleGetDocument cfg b args =
     (let g = GetDocumentCall (indexName cfg) (id_arg args)
      in case getDocument b (indexName cfg) (id_arg args) of
           Inr doc \<Rightarrow> ([g], Inr doc)
         | Inl error \<Rightarrow>
             (let s = SearchCall (indexName cfg) (Some '''') (path_params (id_arg args))
              in case search b (indexName cfg) (Some '''') (path_params (id_arg args)) of
                   Inl e \<Rightarrow> ([g, s], Inl e)
                 | Inr r \<Rightarrow>
                     if length (hits r) \<noteq> 0 then ([g, s], Inr (JObj (hd (hits r))))
                     else ([g, s],
                       Inl (JsError (''Document not found: '' @ template_str (id_arg args))))))"

definition sse_handleLookupDecision ::
  "config \<Rightarrow> backend \<Rightarrow> tool_args \<Rightarrow> call list \<times> (failure + jsval)" where
  "sse_handleLookupDecision cfg b args =
     (case sse_handleSearchDocs cfg b
             (no_args\<lparr>query_arg := question_arg args, limit_arg := Some 5\<rparr>) of
        (cs, Inl e) \<Rightarrow> (cs, Inl e)
      | (cs, Inr res) \<Rightarrow>
          if length (results res) = 0 then
            (cs, Inr (JObj [(''found'', JBool False),
                            (''message'', JStr ''No relevant decisions found.'')]))
          else
            (cs, Inr (JObj [(''found'', JBool True),
                            (''question'', str_val (question_arg args)),
                            (''relevant_documents'', JArr (map JObj (results res)))])))"

definition sse_callTool_switch ::
  "config \<Rightarrow> backend \<Rightarrow> string \<Rightarrow> tool_args \<Rightarrow> call list \<times> (failure + jsval)" where
  "sse_callTool_switch cfg b nm args =
     (if nm = ''search_docs'' then wrap docs_result_val (sse_handleSearchDocs cfg b args)
      else if nm = ''search_chunks'' then
        wrap chunks_result_val (sse_handleSearchChunks cfg b args)
      else if nm = ''get_document'' then sse_handleGetDocument cfg b args
      else if nm = ''lookup_decision'' then sse_handleLookupDecision cfg b args
      else ([], Inl (JsError (''Unknown tool: '' @ nm))))"

definition sse_callTool ::
  "config \<Rightarrow> backend \<Rightarrow> string \<Rightarrow> tool_args \<Rightarrow> call list \<times> envelope" where
  "sse_callTool cfg b nm args =
     (case sse_callTool_switch cfg b nm args of
        (cs, Inr result) \<Rightarrow> (cs, success_envelope result)
      | (cs, Inl error) \<Rightarrow> (cs, error_envelope (message error)))"

subsection \<open>Observations on a call log, and concrete inputs\<close>

text \<open>The options of the searches in a call log, in order.\<close>

fun searches :: "call list \<Rightarrow> search_params list" where
  "searches [] = []"
| "searches (SearchCall i q p # cs) = p # searches cs"
| "searches (GetDocumentCall i d # cs) = searches cs"


text \<open>The configuration when no environment variable is set.\<close>

definition default_config :: config where
  "default_config = \<lparr>indexName = ''documents'', chunksIndexName = ''documents_chunks''\<rparr>"

text \<open>A backend that gives every lookup the answer \<open>g\<close> and every search the answer \<open>s\<close>.\<close>

definition fixed_backend :: "failure + jsval \<Rightarrow> failure + search_response \<Rightarrow> backend" where
  "fixed_backend g s = \<lparr>getDocument = (\<lambda>i d. g), search = (\<lambda>i q p. s)\<rparr>"

definition hit_sessions :: jsobject where
  "hit_sessions =
     [(''id'', JStr ''adr-7''),
      (''title'', JStr ''Session storage''),
      (''path'', JStr ''adr/0007-sessions.md''),
      (''description'', JStr ''Why sessions are not kept in Redis''),
      (''tags'', JArr [JStr ''adr'', JStr ''redis'']),
      (''_formatted'', JObj
         [(''description'', JStr ''Why sessions are not kept in **Redis**''),
          (''content'', JStr ''We keep **Redis** for caching only.'')])]"

definition hit_content_only :: jsobject where
  "hit_content_only =
     [(''id'', JStr ''runbook-2''),
      (''title'', JStr ''Cache runbook''),
      (''path'', JStr ''runbooks/cache.md''),
      (''_formatted'', JObj [(''content'', JStr ''Restart **Redis** first.'')])]"

definition hit_plain :: jsobject where
  "hit_plain = [(''id'', JStr ''note-3''), (''title'', JStr ''Note''), (''path'', JStr ''notes/3.md'')]"

definition no_document :: "failure + jsval" where
  "no_document = Inl (MeiliNotFound ''Document not found'')"

definition response_of :: "jsobject list \<Rightarrow> search_response" where
  "response_of hs =
     \<lparr>estimatedTotalHits = JNum (int (length hs)), hits = hs, facetDistribution = None\<rparr>"

definition empty_backend :: backend where
  "empty_backend = fixed_backend no_document (Inr (response_of []))"

definition sessions_backend :: backend where
  "sessions_backend = fixed_backend no_document (Inr (response_of [hit_sessions]))"

definition unreachable_lookup_backend :: backend where
  "unreachable_lookup_backend =
     fixed_backend (Inl (MeiliUnavailable ''connect ECONNREFUSED''))
       (Inr (response_of [hit_sessions]))"



definition other_facet_backend :: backend where
  "other_facet_backend =
     fixed_backend no_document
       (Inr \<lparr>estimatedTotalHits = JNum 4, hits = [],
             facetDistribution = Some [(''category'', [(''runbook'', 4)])]\<rparr>)"

section \<open>Properties\<close>

subsection \<open>Auxiliary facts\<close>

lemma handleSearchDocs_calls:
  "fst (handleSearchDocs cfg b args) =
     [SearchCall (indexName cfg) (query_arg args) (searchDocs_params args)]"
  by (simp add: handleSearchDocs_def Let_def split: sum.splits)

lemma sse_handleSearchDocs_calls:
  "fst (sse_handleSearchDocs cfg b args) =
     [SearchCall (indexName cfg) (query_arg args) (sse_searchDocs_params args)]"
  by (simp add: sse_handleSearchDocs_def Let_def split: sum.splits)

lemma handleSearchChunks_calls:
  "fst (handleSearchChunks cfg b args) =
     [SearchCall (chunksIndexName cfg) (query_arg args) (searchChunks_params args)]"
  by (simp add: handleSearchChunks_def Let_def split: sum.splits)

lemma sse_handleSearchChunks_calls:
  "fst (sse_handleSearchChunks cfg b args) =
     [SearchCall (chunksIndexName cfg) (query_arg args) (sse_searchChunks_params args)]"
  by (simp add: sse_handleSearchChunks_def Let_def split: sum.splits)

lemma limit_with_document_filter:
  "limit (with_document_filter d p) = limit p"
  by (simp add: with_document_filter_def split: option.splits)

lemma limit_searchDocs_params:
  "limit (searchDocs_params args) =
     Some (min (case limit_arg args of None \<Rightarrow> 10 | Some l \<Rightarrow> l) 50)"
  by (simp add: searchDocs_params_def Let_def no_params_def split: option.splits)

lemma limit_sse_searchDocs_params:
  "limit (sse_searchDocs_params args) =
     Some (min (case limit_arg args of None \<Rightarrow> 10 | Some l \<Rightarrow> l) 50)"
  by (simp add: sse_searchDocs_params_def Let_def no_params_def split: option.splits)

lemma limit_searchChunks_params:
  "limit (searchChunks_params args) =
     Some (min (case limit_arg args of None \<Rightarrow> 10 | Some l \<Rightarrow> l) 50)"
  by (simp add: searchChunks_params_def Let_def no_params_def limit_with_document_filter)

lemma limit_sse_searchChunks_params:
  "limit (sse_searchChunks_params args) =
     Some (case limit_arg args of None \<Rightarrow> 10 | Some l \<Rightarrow> l)"
  by (simp add: sse_searchChunks_params_def Let_def no_params_def limit_with_document_filter)

lemma join_Cons: "join sep (x # xs) = x @ concat (map (\<lambda>y. sep @ y) xs)"
  by (induction xs arbitrary: x) simp_all

lemma tags_filter_Cons:
  \<open>tags_filter (t # ts) =
     ''tags = "'' @ t @ ''"'' @ concat (map (\<lambda>u. '' OR tags = "'' @ u @ ''"'') ts)\<close>
  by (simp add: tags_filter_def join_Cons tag_clause_def comp_def)

lemma filter_searchDocs_params:
  "filter_expr (searchDocs_params args) =
     (case tags_arg args of None \<Rightarrow> None | Some [] \<Rightarrow> None | Some (t # ts) \<Rightarrow> Some (tags_filter (t # ts)))"
  by (simp add: searchDocs_params_def Let_def no_params_def split: option.splits list.splits)

lemma filter_sse_searchDocs_params:
  "filter_expr (sse_searchDocs_params args) =
     (case tags_arg args of None \<Rightarrow> None | Some [] \<Rightarrow> None | Some (t # ts) \<Rightarrow> Some (tags_filter (t # ts)))"
  by (simp add: sse_searchDocs_params_def Let_def no_params_def split: option.splits list.splits)






lemma handleListTags_ok:
  "search b (indexName cfg) (Some '''') tags_params = Inr r \<Longrightarrow>
   handleListTags cfg b =
     ([SearchCall (indexName cfg) (Some '''') tags_params],
      Inr (JObj [(''tags'', JArr (map tag_count_val (sorted_tags (tagCounts r))))]))"
  by (simp add: handleListTags_def Let_def)


lemma sse_handleGetDocument_eq:
  "sse_handleGetDocument cfg b args = handleGetDocument cfg b args"
  by (simp add: sse_handleGetDocument_def handleGetDocument_def Let_def
      split: sum.splits list.splits)

lemma path_params_eq:
  \<open>path_params (Some i) =
     \<lparr>limit = Some 1, attributesToHighlight = None, highlightPreTag = None,
      highlightPostTag = None, attributesToRetrieve = None,
      filter_expr = Some (''path = "'' @ i @ ''"''), facets = None\<rparr>\<close>
  by (simp add: path_params_def no_params_def template_str_def)

lemma normalize_doc_snippet:
  "snippet hit = Inr v \<Longrightarrow>
   \<exists>d. normalize_doc hit = Inr d \<and> get_prop d ''snippet'' = v"
  by (simp add: normalize_doc_def get_prop_def)

lemma sse_normalize_doc_snippet:
  "sse_snippet hit = Inr v \<Longrightarrow>
   \<exists>d. sse_normalize_doc hit = Inr d \<and> get_prop d ''snippet'' = v"
  by (simp add: sse_normalize_doc_def get_prop_def)

lemma map_throwing_all2:
  "map_throwing f xs = Inr ys \<Longrightarrow> list_all2 (\<lambda>x y. f x = Inr y) xs ys"
  by (induction xs arbitrary: ys) (auto split: sum.splits)

lemma lookup_searchDocs_params:
  "limit (searchDocs_params (no_args\<lparr>query_arg := q, limit_arg := Some 5\<rparr>)) = Some 5
   \<and> filter_expr (searchDocs_params (no_args\<lparr>query_arg := q, limit_arg := Some 5\<rparr>)) = None"
  by (simp add: searchDocs_params_def no_args_def no_params_def)

lemma lookup_sse_searchDocs_params:
  "limit (sse_searchDocs_params (no_args\<lparr>query_arg := q, limit_arg := Some 5\<rparr>)) = Some 5
   \<and> filter_expr (sse_searchDocs_params (no_args\<lparr>query_arg := q, limit_arg := Some 5\<rparr>)) = None"
  by (simp add: sse_searchDocs_params_def no_args_def no_params_def)

lemma handleLookupDecision_calls:
  "fst (handleLookupDecision cfg b args) =
     [SearchCall (indexName cfg) (question_arg args)
        (searchDocs_params (no_args\<lparr>query_arg := question_arg args, limit_arg := Some 5\<rparr>))]"
proof -
  have "fst (handleLookupDecision cfg b args) =
      fst (handleSearchDocs cfg b (no_args\<lparr>query_arg := question_arg args, limit_arg := Some 5\<rparr>))"
    by (simp add: handleLookupDecision_def Let_def split: prod.splits sum.splits)
  then show ?thesis
    by (simp add: handleSearchDocs_calls)
qed

lemma sse_handleLookupDecision_calls:
  "fst (sse_handleLookupDecision cfg b args) =
     [SearchCall (indexName cfg) (question_arg args)
        (sse_searchDocs_params (no_args\<lparr>query_arg := question_arg args, limit_arg := Some 5\<rparr>))]"
proof -
  have "fst (sse_handleLookupDecision cfg b args) =
      fst (sse_handleSearchDocs cfg b (no_args\<lparr>query_arg := question_arg args, limit_arg := Some 5\<rparr>))"
    by (simp add: sse_handleLookupDecision_def split: prod.splits sum.splits)
  then show ?thesis
    by (simp add: sse_handleSearchDocs_calls)
qed

lemma handleLookupDecision_result:
  assumes "search b (indexName cfg) (question_arg args)
             (searchDocs_params (no_args\<lparr>query_arg := question_arg args, limit_arg := Some 5\<rparr>)) = Inr r"
    and "map_throwing normalize_doc (hits r) = Inr ds"
  shows "snd (handleLookupDecision cfg b args) =
           (if ds = [] then Inr not_found_val
            else Inr (JObj [(''found'', JBool True),
                            (''question'', str_val (question_arg args)),
                            (''relevant_documents'', JArr (map evidence ds)),
                            (''note'', JStr synthesis_note)]))"
  using assms
  by (simp add: handleLookupDecision_def handleSearchDocs_def Let_def)

lemma sse_handleLookupDecision_result:
  assumes "search b (indexName cfg) (question_arg args)
             (sse_searchDocs_params (no_args\<lparr>query_arg := question_arg args, limit_arg := Some 5\<rparr>)) = Inr r"
    and "map_throwing sse_normalize_doc (hits r) = Inr ds"
  shows "snd (sse_handleLookupDecision cfg b args) =
           (if ds = [] then
              Inr (JObj [(''found'', JBool False),
                         (''message'', JStr ''No relevant decisions found.'')])
            else Inr (JObj [(''found'', JBool True),
                            (''question'', str_val (question_arg args)),
                            (''relevant_documents'', JArr (map JObj ds))]))"
  using assms
  by (simp add: sse_handleLookupDecision_def sse_handleSearchDocs_def Let_def)

lemma evidence_normalize_doc:
  "normalize_doc hit = Inr d \<Longrightarrow>
   evidence d =
     JObj [(''title'', get_prop hit ''title''),
           (''path'', get_prop hit ''path''),
           (''description'', js_or (get_prop hit ''description'') (JStr '''')),
           (''tags'', js_or (get_prop hit ''tags'') (JArr [])),
           (''source_url'', get_prop hit ''source_url''),
           (''snippet'', get_prop d ''snippet'')]"
  by (auto simp add: normalize_doc_def evidence_def get_prop_def split: sum.splits)

lemma tool_names:
  "map name tools =
     [''search_docs'', ''search_chunks'', ''get_document'', ''list_tags'', ''lookup_decision'']"
  by (simp add: tools_def)

lemma sse_tool_names:
  "map name sse_tools = [''search_docs'', ''search_chunks'', ''get_document'', ''lookup_decision'']"
  by (simp add: sse_tools_def)




lemma callTool_failure:
  "snd (callTool_switch cfg b nm args) = Inl e \<Longrightarrow>
   snd (callTool cfg b nm args) = error_envelope (message e)"
  by (cases "callTool_switch cfg b nm args") (simp add: callTool_def)

lemma callTool_success:
  "snd (callTool_switch cfg b nm args) = Inr v \<Longrightarrow>
   snd (callTool cfg b nm args) = success_envelope v"
  by (cases "callTool_switch cfg b nm args") (simp add: callTool_def)

lemma sse_callTool_failure:
  "snd (sse_callTool_switch cfg b nm args) = Inl e \<Longrightarrow>
   snd (sse_callTool cfg b nm args) = error_envelope (message e)"
  by (cases "sse_callTool_switch cfg b nm args") (simp add: sse_callTool_def)

lemma sse_callTool_success:
  "snd (sse_callTool_switch cfg b nm args) = Inr v \<Longrightarrow>
   snd (sse_callTool cfg b nm args) = success_envelope v"
  by (cases "sse_callTool_switch cfg b nm args") (simp add: sse_callTool_def)

lemma callTool_unknown:
  "nm \<notin> set (map name tools) \<Longrightarrow>
   callTool cfg b nm args = ([], error_envelope (''Unknown tool: '' @ nm))"
  by (simp add: tool_names callTool_def callTool_switch_def)

lemma sse_callTool_unknown:
  "nm \<notin> set (map name sse_tools) \<Longrightarrow>
   sse_callTool cfg b nm args = ([], error_envelope (''Unknown tool: '' @ nm))"
  by (simp add: sse_tool_names sse_callTool_def sse_callTool_switch_def)

lemma callTool_isError:
  "isError (snd (callTool cfg b nm args)) = Some True \<longleftrightarrow>
     (\<exists>e. snd (callTool_switch cfg b nm args) = Inl e)"
  by (cases "snd (callTool_switch cfg b nm args)")
    (simp_all add: callTool_failure callTool_success error_envelope_def success_envelope_def)

lemma sse_callTool_isError:
  "isError (snd (sse_callTool cfg b nm args)) = Some True \<longleftrightarrow>
     (\<exists>e. snd (sse_callTool_switch cfg b nm args) = Inl e)"
  by (cases "snd (sse_callTool_switch cfg b nm args)")
    (simp_all add: sse_callTool_failure sse_callTool_success error_envelope_def
      success_envelope_def)






subsection \<open>C1: the limit sent to the backend\<close>

text \<open>
  C1, as the code has it. \<^verbatim>\<open>search_docs\<close> in both bindings and \<^verbatim>\<open>search_chunks\<close> in the
  stdio binding make one search whose limit is \<open>min L 50\<close> for a requested limit \<open>L\<close>,
  hence at most 50; with no requested limit, all four search handlers send 10. There is
  no lower bound, and nothing is said here of a requested limit in the SSE binding's
  \<^verbatim>\<open>search_chunks\<close>.
\<close>

theorem backend_limit_min_50:
  "(limit_arg args = Some L \<longrightarrow>
      map limit (searches (fst (handleSearchDocs cfg b args))) = [Some (min L 50)]
      \<and> map limit (searches (fst (sse_handleSearchDocs cfg b args))) = [Some (min L 50)]
      \<and> map limit (searches (fst (handleSearchChunks cfg b args))) = [Some (min L 50)]
      \<and> min L 50 \<le> 50)
   \<and> (limit_arg args = None \<longrightarrow>
      map limit (searches (fst (handleSearchDocs cfg b args))) = [Some 10]
      \<and> map limit (searches (fst (sse_handleSearchDocs cfg b args))) = [Some 10]
      \<and> map limit (searches (fst (handleSearchChunks cfg b args))) = [Some 10]
      \<and> map limit (searches (fst (sse_handleSearchChunks cfg b args))) = [Some 10])"
  by (simp add: handleSearchDocs_calls sse_handleSearchDocs_calls handleSearchChunks_calls
      sse_handleSearchChunks_calls limit_searchDocs_params limit_sse_searchDocs_params
      limit_searchChunks_params limit_sse_searchChunks_params)

text \<open>A requested limit of 200 and an absent one, on the backend with no documents.\<close>

theorem backend_limit_min_50_witness:
  "limit_arg (no_args\<lparr>query_arg := Some ''redis'', limit_arg := Some 200\<rparr>) = Some 200
   \<and> map limit (searches (fst (handleSearchDocs default_config empty_backend
         (no_args\<lparr>query_arg := Some ''redis'', limit_arg := Some 200\<rparr>)))) = [Some 50]
   \<and> map limit (searches (fst (sse_handleSearchDocs default_config empty_backend
         (no_args\<lparr>query_arg := Some ''redis'', limit_arg := Some 200\<rparr>)))) = [Some 50]
   \<and> map limit (searches (fst (handleSearchChunks default_config empty_backend
         (no_args\<lparr>query_arg := Some ''redis'', limit_arg := Some 200\<rparr>)))) = [Some 50]
   \<and> limit_arg (no_args\<lparr>query_arg := Some ''redis''\<rparr>) = None
   \<and> map limit (searches (fst (sse_handleSearchChunks default_config empty_backend
         (no_args\<lparr>query_arg := Some ''redis''\<rparr>)))) = [Some 10]"
  using backend_limit_min_50 [of "no_args\<lparr>query_arg := Some ''redis'', limit_arg := Some 200\<rparr>"
      200 default_config empty_backend]
    backend_limit_min_50 [of "no_args\<lparr>query_arg := Some ''redis''\<rparr>"
      0 default_config empty_backend]
  by (simp add: no_args_def)

text \<open>
  C1 as stated fails twice: a negative limit reaches the backend of \<^verbatim>\<open>search_docs\<close>
  unchanged, below 0; and the SSE binding's \<^verbatim>\<open>search_chunks\<close> sends a limit of 1000 as it
  is, not \<open>min 1000 50\<close>.
\<close>

theorem backend_limit_counterexample:
  "map limit (searches (fst (handleSearchDocs default_config empty_backend
       (no_args\<lparr>query_arg := Some ''redis'', limit_arg := Some (- 5)\<rparr>)))) = [Some (- 5)]
   \<and> \<not> (0::int) \<le> - 5
   \<and> map limit (searches (fst (sse_handleSearchChunks default_config empty_backend
       (no_args\<lparr>query_arg := Some ''redis'', limit_arg := Some 1000\<rparr>)))) = [Some 1000]
   \<and> (1000::int) \<noteq> min 1000 50"
  by (simp add: handleSearchDocs_calls sse_handleSearchChunks_calls limit_searchDocs_params
      limit_sse_searchChunks_params no_args_def)

subsection \<open>C2: get_document\<close>

text \<open>
  C2, as the code has it. For an identifier \<open>i\<close>, both bindings first look the document
  up by \<open>i\<close> and return it with no further call when the lookup resolves. When the
  lookup rejects, with whatever error \<open>e\<close>, they make one search with empty text, the
  filter \<^verbatim>\<open>path = "i"\<close> and limit 1: with no hit the handler throws
  \<^verbatim>\<open>Document not found: i\<close>, with a first hit \<open>h\<close> (so also with exactly one hit) it returns
  \<open>h\<close>, and a rejection of the search is thrown on.
\<close>

theorem get_document_lookup_then_path_search:
  assumes \<open>id_arg args = Some i\<close>
  shows \<open>path_params (Some i) =
            \<lparr>limit = Some 1, attributesToHighlight = None, highlightPreTag = None,
             highlightPostTag = None, attributesToRetrieve = None,
             filter_expr = Some (''path = "'' @ i @ ''"''), facets = None\<rparr>
         \<and> sse_handleGetDocument cfg b args = handleGetDocument cfg b args
         \<and> (getDocument b (indexName cfg) (Some i) = Inr doc \<longrightarrow>
              handleGetDocument cfg b args =
                ([GetDocumentCall (indexName cfg) (Some i)], Inr doc))
         \<and> (getDocument b (indexName cfg) (Some i) = Inl e
              \<and> search b (indexName cfg) (Some '''') (path_params (Some i)) = Inr r
              \<and> hits r = [] \<longrightarrow>
              handleGetDocument cfg b args =
                ([GetDocumentCall (indexName cfg) (Some i),
                  SearchCall (indexName cfg) (Some '''') (path_params (Some i))],
                 Inl (JsError (''Document not found: '' @ i))))
         \<and> (getDocument b (indexName cfg) (Some i) = Inl e
              \<and> search b (indexName cfg) (Some '''') (path_params (Some i)) = Inr r
              \<and> hits r = h # hs \<longrightarrow>
              handleGetDocument cfg b args =
                ([GetDocumentCall (indexName cfg) (Some i),
                  SearchCall (indexName cfg) (Some '''') (path_params (Some i))],
                 Inr (JObj h)))
         \<and> (getDocument b (indexName cfg) (Some i) = Inl e
              \<and> search b (indexName cfg) (Some '''') (path_params (Some i)) = Inl e' \<longrightarrow>
              handleGetDocument cfg b args =
                ([GetDocumentCall (indexName cfg) (Some i),
                  SearchCall (indexName cfg) (Some '''') (path_params (Some i))],
                 Inl e'))\<close>
  using assms
  by (simp add: sse_handleGetDocument_eq handleGetDocument_def Let_def path_params_eq
      template_str_def)

text \<open>
  A backend that knows the identifier, one that knows neither identifier nor path, one
  that finds the document by its path, and one whose search is rejected.
\<close>

theorem get_document_lookup_then_path_search_witness:
  \<open>id_arg (no_args\<lparr>id_arg := Some ''adr/0007-sessions.md''\<rparr>) = Some ''adr/0007-sessions.md''
   \<and> getDocument (fixed_backend (Inr (JObj hit_plain)) (Inr (response_of [])))
        (indexName default_config) (Some ''adr/0007-sessions.md'') = Inr (JObj hit_plain)
   \<and> handleGetDocument default_config
        (fixed_backend (Inr (JObj hit_plain)) (Inr (response_of [])))
        (no_args\<lparr>id_arg := Some ''adr/0007-sessions.md''\<rparr>) =
        ([GetDocumentCall ''documents'' (Some ''adr/0007-sessions.md'')], Inr (JObj hit_plain))
   \<and> getDocument empty_backend (indexName default_config) (Some ''adr/0007-sessions.md'') =
        Inl (MeiliNotFound ''Document not found'')
   \<and> search empty_backend (indexName default_config) (Some '''')
        (path_params (Some ''adr/0007-sessions.md'')) = Inr (response_of [])
   \<and> hits (response_of []) = []
   \<and> snd (handleGetDocument default_config empty_backend
        (no_args\<lparr>id_arg := Some ''adr/0007-sessions.md''\<rparr>)) =
        Inl (JsError ''Document not found: adr/0007-sessions.md'')
   \<and> getDocument sessions_backend (indexName default_config) (Some ''adr/0007-sessions.md'') =
        Inl (MeiliNotFound ''Document not found'')
   \<and> search sessions_backend (indexName default_config) (Some '''')
        (path_params (Some ''adr/0007-sessions.md'')) = Inr (response_of [hit_sessions])
   \<and> hits (response_of [hit_sessions]) = [hit_sessions]
   \<and> snd (sse_handleGetDocument default_config sessions_backend
        (no_args\<lparr>id_arg := Some ''adr/0007-sessions.md''\<rparr>)) = Inr (JObj hit_sessions)
   \<and> search (fixed_backend no_document (Inl (MeiliUnavailable ''connect ECONNREFUSED'')))
        (indexName default_config) (Some '''') (path_params (Some ''adr/0007-sessions.md'')) =
        Inl (MeiliUnavailable ''connect ECONNREFUSED'')
   \<and> snd (handleGetDocument default_config
        (fixed_backend no_document (Inl (MeiliUnavailable ''connect ECONNREFUSED'')))
        (no_args\<lparr>id_arg := Some ''adr/0007-sessions.md''\<rparr>)) =
        Inl (MeiliUnavailable ''connect ECONNREFUSED'')\<close>
proof -
  have a: "id_arg (no_args\<lparr>id_arg := Some ''adr/0007-sessions.md''\<rparr>) =
      Some ''adr/0007-sessions.md''"
    by simp
  show ?thesis
    using a
      get_document_lookup_then_path_search [OF a,
        where b = "fixed_backend (Inr (JObj hit_plain)) (Inr (response_of []))"
          and cfg = default_config and doc = "JObj hit_plain"]
      get_document_lookup_then_path_search [OF a,
        where b = empty_backend and cfg = default_config
          and e = "MeiliNotFound ''Document not found''" and r = "response_of []"]
      get_document_lookup_then_path_search [OF a,
        where b = sessions_backend and cfg = default_config
          and e = "MeiliNotFound ''Document not found''" and r = "response_of [hit_sessions]"
          and h = hit_sessions and hs = "[]"]
      get_document_lookup_then_path_search [OF a,
        where b = "fixed_backend no_document (Inl (MeiliUnavailable ''connect ECONNREFUSED''))"
          and cfg = default_config
          and e = "MeiliNotFound ''Document not found''"
          and e' = "MeiliUnavailable ''connect ECONNREFUSED''"]
    by (simp add: fixed_backend_def empty_backend_def sessions_backend_def no_document_def
        response_of_def default_config_def)
qed

text \<open>
  C2 as stated fails in its "only on a not-found signal": the lookup below is rejected
  because the engine cannot be reached, which is no not-found signal, and both bindings
  still search by path and return the hit.
\<close>

theorem get_document_fallback_counterexample:
  \<open>getDocument unreachable_lookup_backend ''documents'' (Some ''adr/0007-sessions.md'') =
     Inl (MeiliUnavailable ''connect ECONNREFUSED'')
   \<and> \<not> is_not_found_signal (MeiliUnavailable ''connect ECONNREFUSED'')
   \<and> handleGetDocument default_config unreachable_lookup_backend
        (no_args\<lparr>id_arg := Some ''adr/0007-sessions.md''\<rparr>) =
      ([GetDocumentCall ''documents'' (Some ''adr/0007-sessions.md''),
        SearchCall ''documents'' (Some '''') (path_params (Some ''adr/0007-sessions.md''))],
       Inr (JObj hit_sessions))
   \<and> sse_handleGetDocument default_config unreachable_lookup_backend
        (no_args\<lparr>id_arg := Some ''adr/0007-sessions.md''\<rparr>) =
      ([GetDocumentCall ''documents'' (Some ''adr/0007-sessions.md''),
        SearchCall ''documents'' (Some '''') (path_params (Some ''adr/0007-sessions.md''))],
       Inr (JObj hit_sessions))\<close>
  by (simp add: sse_handleGetDocument_eq handleGetDocument_def Let_def
      unreachable_lookup_backend_def fixed_backend_def default_config_def response_of_def)

subsection \<open>C3: lookup_decision\<close>

text \<open>
  C3, as the code has it. In both bindings \<^verbatim>\<open>lookup_decision\<close> makes exactly one backend
  call, a document search with the question as text, limit 5 and no filter.

  In the stdio binding, a search with no hit gives \<^verbatim>\<open>found: false\<close> with the message and
  the suggestion and no other field; a search with hits, all of which normalize, gives
  \<^verbatim>\<open>found: true\<close>, the question, one evidence object per hit, in order, built from the
  normalized title, path, description, tags, source_url and snippet, and the synthesis
  note. The evidence list is as long as the list of hits, which is \<open>min (length ms) 5\<close>
  when the backend returns the first 5 of the matches \<open>ms\<close>.

  In the SSE binding, no hit gives \<^verbatim>\<open>found: false\<close> with a message only; hits give
  \<^verbatim>\<open>found: true\<close>, the question and the normalized results of the SSE document search as
  they are, with no note.
\<close>

theorem lookup_decision_outcomes:
  "fst (handleLookupDecision cfg b args) =
     [SearchCall (indexName cfg) (question_arg args)
        (searchDocs_params (no_args\<lparr>query_arg := question_arg args, limit_arg := Some 5\<rparr>))]
   \<and> limit (searchDocs_params (no_args\<lparr>query_arg := question_arg args, limit_arg := Some 5\<rparr>))
        = Some 5
   \<and> filter_expr (searchDocs_params (no_args\<lparr>query_arg := question_arg args, limit_arg := Some 5\<rparr>))
        = None
   \<and> (search b (indexName cfg) (question_arg args)
          (searchDocs_params (no_args\<lparr>query_arg := question_arg args, limit_arg := Some 5\<rparr>)) = Inr r
        \<and> hits r = [] \<longrightarrow>
        snd (handleLookupDecision cfg b args) =
          Inr (JObj [(''found'', JBool False),
                     (''message'', JStr ''No relevant decisions found for this question.''),
                     (''suggestion'', JStr
                        ''Try rephrasing your question or use search_docs with different keywords.'')]))
   \<and> (search b (indexName cfg) (question_arg args)
          (searchDocs_params (no_args\<lparr>query_arg := question_arg args, limit_arg := Some 5\<rparr>)) = Inr r
        \<and> hits r \<noteq> [] \<and> map_throwing normalize_doc (hits r) = Inr ds \<longrightarrow>
        snd (handleLookupDecision cfg b args) =
          Inr (JObj [(''found'', JBool True),
                     (''question'', str_val (question_arg args)),
                     (''relevant_documents'', JArr (map evidence ds)),
                     (''note'', JStr
                        ''Synthesize an answer from these documents. If the answer is unclear, say so.'')])
        \<and> length (map evidence ds) = length (hits r)
        \<and> list_all2 (\<lambda>hit d. normalize_doc hit = Inr d) (hits r) ds
        \<and> (hits r = take 5 ms \<longrightarrow> length (map evidence ds) = min (length ms) 5))
   \<and> (normalize_doc hit = Inr d \<longrightarrow>
        evidence d =
          JObj [(''title'', get_prop hit ''title''),
                (''path'', get_prop hit ''path''),
                (''description'', js_or (get_prop hit ''description'') (JStr '''')),
                (''tags'', js_or (get_prop hit ''tags'') (JArr [])),
                (''source_url'', get_prop hit ''source_url''),
                (''snippet'', get_prop d ''snippet'')])
   \<and> fst (sse_handleLookupDecision cfg b args) =
        [SearchCall (indexName cfg) (question_arg args)
           (sse_searchDocs_params (no_args\<lparr>query_arg := question_arg args, limit_arg := Some 5\<rparr>))]
   \<and> limit (sse_searchDocs_params (no_args\<lparr>query_arg := question_arg args, limit_arg := Some 5\<rparr>))
        = Some 5
   \<and> filter_expr (sse_searchDocs_params (no_args\<lparr>query_arg := question_arg args, limit_arg := Some 5\<rparr>))
        = None
   \<and> (search b (indexName cfg) (question_arg args)
          (sse_searchDocs_params (no_args\<lparr>query_arg := question_arg args, limit_arg := Some 5\<rparr>)) = Inr r'
        \<and> hits r' = [] \<longrightarrow>
        snd (sse_handleLookupDecision cfg b args) =
          Inr (JObj [(''found'', JBool False),
                     (''message'', JStr ''No relevant decisions found.'')]))
   \<and> (search b (indexName cfg) (question_arg args)
          (sse_searchDocs_params (no_args\<lparr>query_arg := question_arg args, limit_arg := Some 5\<rparr>)) = Inr r'
        \<and> hits r' \<noteq> [] \<and> map_throwing sse_normalize_doc (hits r') = Inr ds' \<longrightarrow>
        snd (sse_handleLookupDecision cfg b args) =
          Inr (JObj [(''found'', JBool True),
                     (''question'', str_val (question_arg args)),
                     (''relevant_documents'', JArr (map JObj ds'))])
        \<and> length (map JObj ds') = length (hits r'))"
proof -
  let ?P = "searchDocs_params (no_args\<lparr>query_arg := question_arg args, limit_arg := Some 5\<rparr>)"
  let ?P' = "sse_searchDocs_params (no_args\<lparr>query_arg := question_arg args, limit_arg := Some 5\<rparr>)"
  have empty: "snd (handleLookupDecision cfg b args) = Inr not_found_val"
    if "search b (indexName cfg) (question_arg args) ?P = Inr r" "hits r = []"
    using handleLookupDecision_result [OF that(1), of "[]"] that(2) by simp
  have found: "snd (handleLookupDecision cfg b args) =
        Inr (JObj [(''found'', JBool True),
                   (''question'', str_val (question_arg args)),
                   (''relevant_documents'', JArr (map evidence ds)),
                   (''note'', JStr synthesis_note)])
      \<and> length ds = length (hits r)
      \<and> list_all2 (\<lambda>hit d. normalize_doc hit = Inr d) (hits r) ds"
    if "search b (indexName cfg) (question_arg args) ?P = Inr r" "hits r \<noteq> []"
      "map_throwing normalize_doc (hits r) = Inr ds"
  proof -
    have all2: "list_all2 (\<lambda>hit d. normalize_doc hit = Inr d) (hits r) ds"
      using that(3) by (rule map_throwing_all2)
    then have len: "length ds = length (hits r)"
      by (simp add: list_all2_lengthD)
    with that(2) have "ds \<noteq> []"
      by auto
    then show ?thesis
      using handleLookupDecision_result [OF that(1) that(3)] all2 len by simp
  qed
  have sse_empty: "snd (sse_handleLookupDecision cfg b args) =
        Inr (JObj [(''found'', JBool False), (''message'', JStr ''No relevant decisions found.'')])"
    if "search b (indexName cfg) (question_arg args) ?P' = Inr r'" "hits r' = []"
    using sse_handleLookupDecision_result [OF that(1), of "[]"] that(2) by simp
  have sse_found: "snd (sse_handleLookupDecision cfg b args) =
        Inr (JObj [(''found'', JBool True),
                   (''question'', str_val (question_arg args)),
                   (''relevant_documents'', JArr (map JObj ds'))])
      \<and> length ds' = length (hits r')"
    if "search b (indexName cfg) (question_arg args) ?P' = Inr r'" "hits r' \<noteq> []"
      "map_throwing sse_normalize_doc (hits r') = Inr ds'"
  proof -
    have len: "length ds' = length (hits r')"
      using map_throwing_all2 [OF that(3)] by (simp add: list_all2_lengthD)
    with that(2) have "ds' \<noteq> []"
      by auto
    then show ?thesis
      using sse_handleLookupDecision_result [OF that(1) that(3)] len by simp
  qed
  have c_empty: "search b (indexName cfg) (question_arg args) ?P = Inr r \<and> hits r = [] \<longrightarrow>
      snd (handleLookupDecision cfg b args) =
        Inr (JObj [(''found'', JBool False),
                   (''message'', JStr ''No relevant decisions found for this question.''),
                   (''suggestion'', JStr
                      ''Try rephrasing your question or use search_docs with different keywords.'')])"
    using empty by (simp add: not_found_val_def)
  have c_found: "search b (indexName cfg) (question_arg args) ?P = Inr r
      \<and> hits r \<noteq> [] \<and> map_throwing normalize_doc (hits r) = Inr ds \<longrightarrow>
      snd (handleLookupDecision cfg b args) =
        Inr (JObj [(''found'', JBool True),
                   (''question'', str_val (question_arg args)),
                   (''relevant_documents'', JArr (map evidence ds)),
                   (''note'', JStr
                      ''Synthesize an answer from these documents. If the answer is unclear, say so.'')])
      \<and> length (map evidence ds) = length (hits r)
      \<and> list_all2 (\<lambda>hit d. normalize_doc hit = Inr d) (hits r) ds
      \<and> (hits r = take 5 ms \<longrightarrow> length (map evidence ds) = min (length ms) 5)"
  proof (intro impI, elim conjE)
    assume a: "search b (indexName cfg) (question_arg args) ?P = Inr r"
      and b: "hits r \<noteq> []" and c: "map_throwing normalize_doc (hits r) = Inr ds"
    note f = found [OF a b c]
    have "length (map evidence ds) = min (length ms) 5" if "hits r = take 5 ms"
      using f that by simp
    then show "snd (handleLookupDecision cfg b args) =
        Inr (JObj [(''found'', JBool True),
                   (''question'', str_val (question_arg args)),
                   (''relevant_documents'', JArr (map evidence ds)),
                   (''note'', JStr
                      ''Synthesize an answer from these documents. If the answer is unclear, say so.'')])
      \<and> length (map evidence ds) = length (hits r)
      \<and> list_all2 (\<lambda>hit d. normalize_doc hit = Inr d) (hits r) ds
      \<and> (hits r = take 5 ms \<longrightarrow> length (map evidence ds) = min (length ms) 5)"
      using f by (simp add: synthesis_note_def)
  qed
  have c_evidence: "normalize_doc hit = Inr d \<longrightarrow>
      evidence d =
        JObj [(''title'', get_prop hit ''title''),
              (''path'', get_prop hit ''path''),
              (''description'', js_or (get_prop hit ''description'') (JStr '''')),
              (''tags'', js_or (get_prop hit ''tags'') (JArr [])),
              (''source_url'', get_prop hit ''source_url''),
              (''snippet'', get_prop d ''snippet'')]"
    using evidence_normalize_doc [of hit d] by blast
  have c_sse_empty: "search b (indexName cfg) (question_arg args) ?P' = Inr r' \<and> hits r' = [] \<longrightarrow>
      snd (sse_handleLookupDecision cfg b args) =
        Inr (JObj [(''found'', JBool False), (''message'', JStr ''No relevant decisions found.'')])"
    using sse_empty by blast
  have c_sse_found: "search b (indexName cfg) (question_arg args) ?P' = Inr r'
      \<and> hits r' \<noteq> [] \<and> map_throwing sse_normalize_doc (hits r') = Inr ds' \<longrightarrow>
      snd (sse_handleLookupDecision cfg b args) =
        Inr (JObj [(''found'', JBool True),
                   (''question'', str_val (question_arg args)),
                   (''relevant_documents'', JArr (map JObj ds'))])
      \<and> length (map JObj ds') = length (hits r')"
    using sse_found by simp
  show ?thesis
    using c_empty c_found c_evidence c_sse_empty c_sse_found
      handleLookupDecision_calls [of cfg b args] sse_handleLookupDecision_calls [of cfg b args]
      lookup_searchDocs_params [of "question_arg args"]
      lookup_sse_searchDocs_params [of "question_arg args"]
    by blast
qed

text \<open>
  A question asked of the backend with no documents and of the backend that finds one.
\<close>

theorem lookup_decision_outcomes_witness:
  "search empty_backend (indexName default_config)
       (question_arg (no_args\<lparr>question_arg := Some ''Why not Redis for sessions?''\<rparr>))
       (searchDocs_params (no_args\<lparr>query_arg := Some ''Why not Redis for sessions?'',
          limit_arg := Some 5\<rparr>)) = Inr (response_of [])
   \<and> hits (response_of []) = []
   \<and> snd (handleLookupDecision default_config empty_backend
         (no_args\<lparr>question_arg := Some ''Why not Redis for sessions?''\<rparr>)) =
       Inr (JObj [(''found'', JBool False),
                  (''message'', JStr ''No relevant decisions found for this question.''),
                  (''suggestion'', JStr
                     ''Try rephrasing your question or use search_docs with different keywords.'')])
   \<and> hits (response_of [hit_sessions]) = take 5 [hit_sessions]
   \<and> normalize_doc hit_sessions =
       Inr [(''id'', JStr ''adr-7''),
            (''title'', JStr ''Session storage''),
            (''path'', JStr ''adr/0007-sessions.md''),
            (''description'', JStr ''Why sessions are not kept in Redis''),
            (''tags'', JArr [JStr ''adr'', JStr ''redis'']),
            (''source_url'', JUndefined),
            (''updated_at'', JUndefined),
            (''snippet'', JStr ''Why sessions are not kept in **Redis**'')]
   \<and> map_throwing normalize_doc (hits (response_of [hit_sessions])) =
       Inr [[(''id'', JStr ''adr-7''),
             (''title'', JStr ''Session storage''),
             (''path'', JStr ''adr/0007-sessions.md''),
             (''description'', JStr ''Why sessions are not kept in Redis''),
             (''tags'', JArr [JStr ''adr'', JStr ''redis'']),
             (''source_url'', JUndefined),
             (''updated_at'', JUndefined),
             (''snippet'', JStr ''Why sessions are not kept in **Redis**'')]]
   \<and> snd (handleLookupDecision default_config sessions_backend
         (no_args\<lparr>question_arg := Some ''Why not Redis for sessions?''\<rparr>)) =
       Inr (JObj [(''found'', JBool True),
                  (''question'', JStr ''Why not Redis for sessions?''),
                  (''relevant_documents'', JArr
                     [JObj [(''title'', JStr ''Session storage''),
                            (''path'', JStr ''adr/0007-sessions.md''),
                            (''description'', JStr ''Why sessions are not kept in Redis''),
                            (''tags'', JArr [JStr ''adr'', JStr ''redis'']),
                            (''source_url'', JUndefined),
                            (''snippet'', JStr ''Why sessions are not kept in **Redis**'')]]),
                  (''note'', JStr
                     ''Synthesize an answer from these documents. If the answer is unclear, say so.'')])
   \<and> snd (sse_handleLookupDecision default_config empty_backend
         (no_args\<lparr>question_arg := Some ''Why not Redis for sessions?''\<rparr>)) =
       Inr (JObj [(''found'', JBool False), (''message'', JStr ''No relevant decisions found.'')])
   \<and> map_throwing sse_normalize_doc (hits (response_of [hit_sessions])) =
       Inr [[(''id'', JStr ''adr-7''),
             (''title'', JStr ''Session storage''),
             (''path'', JStr ''adr/0007-sessions.md''),
             (''tags'', JArr [JStr ''adr'', JStr ''redis'']),
             (''snippet'', JStr ''We keep **Redis** for caching only.'')]]
   \<and> snd (sse_handleLookupDecision default_config sessions_backend
         (no_args\<lparr>question_arg := Some ''Why not Redis for sessions?''\<rparr>)) =
       Inr (JObj [(''found'', JBool True),
                  (''question'', JStr ''Why not Redis for sessions?''),
                  (''relevant_documents'', JArr
                     [JObj [(''id'', JStr ''adr-7''),
                            (''title'', JStr ''Session storage''),
                            (''path'', JStr ''adr/0007-sessions.md''),
                            (''tags'', JArr [JStr ''adr'', JStr ''redis'']),
                            (''snippet'', JStr ''We keep **Redis** for caching only.'')]])])"
proof -
  let ?A = "no_args\<lparr>question_arg := Some ''Why not Redis for sessions?''\<rparr>"
  have q: "question_arg ?A = Some ''Why not Redis for sessions?''"
    by simp
  have d: "normalize_doc hit_sessions =
       Inr [(''id'', JStr ''adr-7''),
            (''title'', JStr ''Session storage''),
            (''path'', JStr ''adr/0007-sessions.md''),
            (''description'', JStr ''Why sessions are not kept in Redis''),
            (''tags'', JArr [JStr ''adr'', JStr ''redis'']),
            (''source_url'', JUndefined),
            (''updated_at'', JUndefined),
            (''snippet'', JStr ''Why sessions are not kept in **Redis**'')]"
    by (simp add: normalize_doc_def snippet_def hit_sessions_def get_prop_def js_or_def)
  have n: "map_throwing normalize_doc (hits (response_of [hit_sessions])) =
       Inr [[(''id'', JStr ''adr-7''),
             (''title'', JStr ''Session storage''),
             (''path'', JStr ''adr/0007-sessions.md''),
             (''description'', JStr ''Why sessions are not kept in Redis''),
             (''tags'', JArr [JStr ''adr'', JStr ''redis'']),
             (''source_url'', JUndefined),
             (''updated_at'', JUndefined),
             (''snippet'', JStr ''Why sessions are not kept in **Redis**'')]]"
    by (simp add: response_of_def normalize_doc_def snippet_def hit_sessions_def get_prop_def
        js_or_def)
  have n': "map_throwing sse_normalize_doc (hits (response_of [hit_sessions])) =
       Inr [[(''id'', JStr ''adr-7''),
             (''title'', JStr ''Session storage''),
             (''path'', JStr ''adr/0007-sessions.md''),
             (''tags'', JArr [JStr ''adr'', JStr ''redis'']),
             (''snippet'', JStr ''We keep **Redis** for caching only.'')]]"
    by (simp add: response_of_def sse_normalize_doc_def sse_snippet_def hit_sessions_def
        get_prop_def js_or_def)
  have h: "hits (response_of [hit_sessions]) = take 5 [hit_sessions]"
    "hits (response_of [hit_sessions]) \<noteq> []" "hits (response_of []) = []"
    by (simp_all add: response_of_def)
  show ?thesis
    using q d n n' h
      lookup_decision_outcomes [where cfg = default_config and b = empty_backend and args = ?A
        and r = "response_of []" and r' = "response_of []"]
      lookup_decision_outcomes [where cfg = default_config and b = sessions_backend and args = ?A
        and r = "response_of [hit_sessions]" and r' = "response_of [hit_sessions]"
        and ms = "[hit_sessions]" and hit = hit_sessions
        and d = "[(''id'', JStr ''adr-7''),
            (''title'', JStr ''Session storage''),
            (''path'', JStr ''adr/0007-sessions.md''),
            (''description'', JStr ''Why sessions are not kept in Redis''),
            (''tags'', JArr [JStr ''adr'', JStr ''redis'']),
            (''source_url'', JUndefined),
            (''updated_at'', JUndefined),
            (''snippet'', JStr ''Why sessions are not kept in **Redis**'')]"
        and ds = "[[(''id'', JStr ''adr-7''),
             (''title'', JStr ''Session storage''),
             (''path'', JStr ''adr/0007-sessions.md''),
             (''description'', JStr ''Why sessions are not kept in Redis''),
             (''tags'', JArr [JStr ''adr'', JStr ''redis'']),
             (''source_url'', JUndefined),
             (''updated_at'', JUndefined),
             (''snippet'', JStr ''Why sessions are not kept in **Redis**'')]]"
        and ds' = "[[(''id'', JStr ''adr-7''),
             (''title'', JStr ''Session storage''),
             (''path'', JStr ''adr/0007-sessions.md''),
             (''tags'', JArr [JStr ''adr'', JStr ''redis'']),
             (''snippet'', JStr ''We keep **Redis** for caching only.'')]]"]
    by (simp add: empty_backend_def sessions_backend_def fixed_backend_def str_val_def
        evidence_def get_prop_def)
qed

text \<open>
  C3 as stated fails in the SSE binding: with no hit the result has no suggestion, and
  with a hit it has no note and its documents carry the SSE fields (no description, no
  source_url).
\<close>

theorem lookup_decision_sse_counterexample:
  "snd (sse_handleLookupDecision default_config empty_backend
       (no_args\<lparr>question_arg := Some ''Why not Redis for sessions?''\<rparr>)) =
     Inr (JObj [(''found'', JBool False), (''message'', JStr ''No relevant decisions found.'')])
   \<and> snd (sse_handleLookupDecision default_config sessions_backend
       (no_args\<lparr>question_arg := Some ''Why not Redis for sessions?''\<rparr>)) =
     Inr (JObj [(''found'', JBool True),
                (''question'', JStr ''Why not Redis for sessions?''),
                (''relevant_documents'', JArr
                   [JObj [(''id'', JStr ''adr-7''),
                          (''title'', JStr ''Session storage''),
                          (''path'', JStr ''adr/0007-sessions.md''),
                          (''tags'', JArr [JStr ''adr'', JStr ''redis'']),
                          (''snippet'', JStr ''We keep **Redis** for caching only.'')]])])"
  by (simp add: sse_handleLookupDecision_def sse_handleSearchDocs_def Let_def
      empty_backend_def sessions_backend_def fixed_backend_def response_of_def
      sse_normalize_doc_def sse_snippet_def hit_sessions_def get_prop_def js_or_def
      str_val_def no_args_def)

subsection \<open>C4: the snippet of a normalized hit\<close>

text \<open>
  C4, as the code has it. In the stdio binding the snippet of a hit is its
  \<^verbatim>\<open>_formatted.description\<close> when that is truthy; otherwise, when \<^verbatim>\<open>_formatted.content\<close> is a
  non-empty string, its first 300 code units; otherwise, when the content is absent,
  \<^verbatim>\<open>null\<close> or empty, the empty string. In the SSE binding the description plays no part:
  the snippet is the capped content, or the empty string.
\<close>

theorem snippet_fallback_order:
  "(truthy (opt_prop (get_prop hit ''_formatted'') ''description'') \<longrightarrow>
      (\<exists>d. normalize_doc hit = Inr d
           \<and> get_prop d ''snippet'' = opt_prop (get_prop hit ''_formatted'') ''description''))
   \<and> (\<not> truthy (opt_prop (get_prop hit ''_formatted'') ''description'')
       \<and> opt_prop (get_prop hit ''_formatted'') ''content'' = JStr s \<and> s \<noteq> [] \<longrightarrow>
      (\<exists>d. normalize_doc hit = Inr d \<and> get_prop d ''snippet'' = JStr (take 300 s))
      \<and> length (take 300 s) \<le> 300)
   \<and> (\<not> truthy (opt_prop (get_prop hit ''_formatted'') ''description'')
       \<and> opt_prop (get_prop hit ''_formatted'') ''content'' \<in> {JUndefined, JNull, JStr ''''} \<longrightarrow>
      (\<exists>d. normalize_doc hit = Inr d \<and> get_prop d ''snippet'' = JStr ''''))
   \<and> (opt_prop (get_prop hit ''_formatted'') ''content'' = JStr s \<and> s \<noteq> [] \<longrightarrow>
      (\<exists>d. sse_normalize_doc hit = Inr d \<and> get_prop d ''snippet'' = JStr (take 300 s)))
   \<and> (opt_prop (get_prop hit ''_formatted'') ''content'' \<in> {JUndefined, JNull, JStr ''''} \<longrightarrow>
      (\<exists>d. sse_normalize_doc hit = Inr d \<and> get_prop d ''snippet'' = JStr ''''))"
proof -
  let ?fd = "opt_prop (get_prop hit ''_formatted'') ''description''"
  let ?fc = "opt_prop (get_prop hit ''_formatted'') ''content''"
  have 1: "truthy ?fd \<Longrightarrow> snippet hit = Inr ?fd"
    by (simp add: snippet_def Let_def)
  have 2: "\<not> truthy ?fd \<Longrightarrow> ?fc = JStr s \<Longrightarrow> s \<noteq> [] \<Longrightarrow>
      snippet hit = Inr (JStr (take 300 s))"
    by (simp add: snippet_def Let_def js_or_def)
  have 3: "\<not> truthy ?fd \<Longrightarrow> ?fc \<in> {JUndefined, JNull, JStr ''''} \<Longrightarrow>
      snippet hit = Inr (JStr '''')"
    by (auto simp add: snippet_def Let_def js_or_def)
  have 4: "?fc = JStr s \<Longrightarrow> s \<noteq> [] \<Longrightarrow> sse_snippet hit = Inr (JStr (take 300 s))"
    by (simp add: sse_snippet_def js_or_def)
  have 5: "?fc \<in> {JUndefined, JNull, JStr ''''} \<Longrightarrow> sse_snippet hit = Inr (JStr '''')"
    by (auto simp add: sse_snippet_def js_or_def)
  show ?thesis
    using 1 2 3 4 5 normalize_doc_snippet [of hit] sse_normalize_doc_snippet [of hit]
    by (metis length_take min.cobounded2)
qed

text \<open>
  A hit with both fragments, one with content only, one whose content has 400 code units,
  and one with neither.
\<close>

theorem snippet_fallback_order_witness:
  "truthy (opt_prop (get_prop hit_sessions ''_formatted'') ''description'')
   \<and> (\<exists>d. normalize_doc hit_sessions = Inr d
         \<and> get_prop d ''snippet'' = JStr ''Why sessions are not kept in **Redis**'')
   \<and> \<not> truthy (opt_prop (get_prop hit_content_only ''_formatted'') ''description'')
   \<and> opt_prop (get_prop hit_content_only ''_formatted'') ''content'' =
        JStr ''Restart **Redis** first.''
   \<and> (\<exists>d. normalize_doc hit_content_only = Inr d
         \<and> get_prop d ''snippet'' = JStr ''Restart **Redis** first.'')
   \<and> (\<exists>d. sse_normalize_doc hit_content_only = Inr d
         \<and> get_prop d ''snippet'' = JStr ''Restart **Redis** first.'')
   \<and> opt_prop (get_prop [(''_formatted'', JObj [(''content'', JStr (replicate 400 (CHR ''x'')))])]
        ''_formatted'') ''content'' = JStr (replicate 400 (CHR ''x''))
   \<and> (\<exists>d. normalize_doc [(''_formatted'', JObj [(''content'', JStr (replicate 400 (CHR ''x'')))])]
           = Inr d
         \<and> get_prop d ''snippet'' = JStr (replicate 300 (CHR ''x'')))
   \<and> opt_prop (get_prop hit_plain ''_formatted'') ''content'' = JUndefined
   \<and> (\<exists>d. normalize_doc hit_plain = Inr d \<and> get_prop d ''snippet'' = JStr '''')
   \<and> (\<exists>d. sse_normalize_doc hit_plain = Inr d \<and> get_prop d ''snippet'' = JStr '''')"
proof -
  have a: "truthy (opt_prop (get_prop hit_sessions ''_formatted'') ''description'')"
    and b: "opt_prop (get_prop hit_sessions ''_formatted'') ''description'' =
      JStr ''Why sessions are not kept in **Redis**''"
    by (simp_all add: hit_sessions_def get_prop_def)
  have c: "\<not> truthy (opt_prop (get_prop hit_content_only ''_formatted'') ''description'')"
    and d: "opt_prop (get_prop hit_content_only ''_formatted'') ''content'' =
      JStr ''Restart **Redis** first.''"
    by (simp_all add: hit_content_only_def get_prop_def)
  have e: "\<not> truthy (opt_prop (get_prop
        [(''_formatted'', JObj [(''content'', JStr (replicate 400 (CHR ''x'')))])]
        ''_formatted'') ''description'')"
    and f: "opt_prop (get_prop [(''_formatted'', JObj [(''content'', JStr (replicate 400 (CHR ''x'')))])]
        ''_formatted'') ''content'' = JStr (replicate 400 (CHR ''x''))"
    by (simp_all add: get_prop_def)
  have g: "\<not> truthy (opt_prop (get_prop hit_plain ''_formatted'') ''description'')"
    and h: "opt_prop (get_prop hit_plain ''_formatted'') ''content'' = JUndefined"
    by (simp_all add: hit_plain_def get_prop_def)
  show ?thesis
    using a b c d e f g h
      snippet_fallback_order [of hit_sessions "''x''"]
      snippet_fallback_order [of hit_content_only "''Restart **Redis** first.''"]
      snippet_fallback_order [of
        "[(''_formatted'', JObj [(''content'', JStr (replicate 400 (CHR ''x'')))])]"
        "replicate 400 (CHR ''x'')"]
      snippet_fallback_order [of hit_plain "''x''"]
    by simp
qed

text \<open>
  C4 as stated fails in the SSE binding: the hit below has a highlighted description, and
  the snippet the SSE document search returns for it is taken from the content.
\<close>

theorem snippet_sse_counterexample:
  "opt_prop (get_prop hit_sessions ''_formatted'') ''description'' =
     JStr ''Why sessions are not kept in **Redis**''
   \<and> snd (sse_handleSearchDocs default_config sessions_backend
        (no_args\<lparr>query_arg := Some ''redis''\<rparr>)) =
     Inr \<lparr>total = JNum 1,
          results = [[(''id'', JStr ''adr-7''),
                      (''title'', JStr ''Session storage''),
                      (''path'', JStr ''adr/0007-sessions.md''),
                      (''tags'', JArr [JStr ''adr'', JStr ''redis'']),
                      (''snippet'', JStr ''We keep **Redis** for caching only.'')]]\<rparr>"
  by (simp add: sse_handleSearchDocs_def Let_def sessions_backend_def fixed_backend_def
      response_of_def sse_normalize_doc_def sse_snippet_def hit_sessions_def get_prop_def
      js_or_def)

subsection \<open>C5: the tag filter\<close>

text \<open>
  C5. In both bindings a document search with the non-empty tag list \<open>t # ts\<close> sends the
  filter made of one clause \<^verbatim>\<open>tags = "u"\<close> for each member \<open>u\<close>, in order, with
  \<^verbatim>\<open> OR \<close> between neighbours; with an empty or absent tag list the filter key is not
  set.
\<close>

theorem tags_filter_or_join:
  \<open>(tags_arg args = Some (t # ts) \<longrightarrow>
      map filter_expr (searches (fst (handleSearchDocs cfg b args))) =
        [Some (''tags = "'' @ t @ ''"'' @ concat (map (\<lambda>u. '' OR tags = "'' @ u @ ''"'') ts))]
      \<and> map filter_expr (searches (fst (sse_handleSearchDocs cfg b args))) =
        [Some (''tags = "'' @ t @ ''"'' @ concat (map (\<lambda>u. '' OR tags = "'' @ u @ ''"'') ts))])
   \<and> (tags_arg args = None \<or> tags_arg args = Some [] \<longrightarrow>
      map filter_expr (searches (fst (handleSearchDocs cfg b args))) = [None]
      \<and> map filter_expr (searches (fst (sse_handleSearchDocs cfg b args))) = [None])\<close>
  by (auto simp add: handleSearchDocs_calls sse_handleSearchDocs_calls
      filter_searchDocs_params filter_sse_searchDocs_params tags_filter_Cons)

text \<open>The tags \<^verbatim>\<open>adr\<close> and \<^verbatim>\<open>redis\<close>, an empty tag list, and no tag list.\<close>

theorem tags_filter_or_join_witness:
  \<open>tags_arg (no_args\<lparr>query_arg := Some ''sessions'', tags_arg := Some [''adr'', ''redis'']\<rparr>)
     = Some [''adr'', ''redis'']
   \<and> map filter_expr (searches (fst (handleSearchDocs default_config sessions_backend
        (no_args\<lparr>query_arg := Some ''sessions'', tags_arg := Some [''adr'', ''redis'']\<rparr>)))) =
        [Some ''tags = "adr" OR tags = "redis"'']
   \<and> map filter_expr (searches (fst (sse_handleSearchDocs default_config sessions_backend
        (no_args\<lparr>query_arg := Some ''sessions'', tags_arg := Some [''adr'', ''redis'']\<rparr>)))) =
        [Some ''tags = "adr" OR tags = "redis"'']
   \<and> tags_arg (no_args\<lparr>query_arg := Some ''sessions'', tags_arg := Some []\<rparr>) = Some []
   \<and> map filter_expr (searches (fst (handleSearchDocs default_config sessions_backend
        (no_args\<lparr>query_arg := Some ''sessions'', tags_arg := Some []\<rparr>)))) = [None]
   \<and> map filter_expr (searches (fst (sse_handleSearchDocs default_config sessions_backend
        (no_args\<lparr>query_arg := Some ''sessions''\<rparr>)))) = [None]\<close>
  using tags_filter_or_join [of "no_args\<lparr>query_arg := Some ''sessions'', tags_arg := Some [''adr'', ''redis'']\<rparr>"
      "''adr''" "[''redis'']" default_config sessions_backend]
    tags_filter_or_join [of "no_args\<lparr>query_arg := Some ''sessions'', tags_arg := Some []\<rparr>"
      "''x''" "[]" default_config sessions_backend]
    tags_filter_or_join [of "no_args\<lparr>query_arg := Some ''sessions''\<rparr>"
      "''x''" "[]" default_config sessions_backend]
  by (simp add: no_args_def)

subsection \<open>C6: the two bindings compared\<close>




subsection \<open>C7: no validation before the handler\<close>




subsection \<open>C8: one envelope for every tool call\<close>

text \<open>
  C8. In both bindings the handler of a tool call returns one envelope, whatever the
  \<^verbatim>\<open>switch\<close> does: for a name that is not in the registry, the error envelope with
  \<^verbatim>\<open>isError: true\<close> and the message \<^verbatim>\<open>Unknown tool: name\<close>, with no backend call; for a
  handler that throws \<open>e\<close>, the error envelope of the same shape with the message of \<open>e\<close>;
  for a handler that returns \<open>v\<close>, the success envelope of \<open>v\<close>. The envelope has
  \<^verbatim>\<open>isError: true\<close> exactly when something was thrown.
\<close>

theorem callTool_one_envelope:
  "(nm \<notin> set (map name tools) \<longrightarrow>
      callTool cfg b nm args =
        ([], \<lparr>content = [TextContent (JObj [(''error'', JStr (''Unknown tool: '' @ nm))])],
              isError = Some True\<rparr>))
   \<and> (snd (callTool_switch cfg b nm args) = Inl e \<longrightarrow>
      snd (callTool cfg b nm args) =
        \<lparr>content = [TextContent (JObj [(''error'', JStr (message e))])], isError = Some True\<rparr>)
   \<and> (snd (callTool_switch cfg b nm args) = Inr v \<longrightarrow>
      snd (callTool cfg b nm args) = \<lparr>content = [TextContent v], isError = None\<rparr>)
   \<and> (isError (snd (callTool cfg b nm args)) = Some True \<longleftrightarrow>
      (\<exists>e'. snd (callTool_switch cfg b nm args) = Inl e'))
   \<and> (nm \<notin> set (map name sse_tools) \<longrightarrow>
      sse_callTool cfg b nm args =
        ([], \<lparr>content = [TextContent (JObj [(''error'', JStr (''Unknown tool: '' @ nm))])],
              isError = Some True\<rparr>))
   \<and> (snd (sse_callTool_switch cfg b nm args) = Inl e \<longrightarrow>
      snd (sse_callTool cfg b nm args) =
        \<lparr>content = [TextContent (JObj [(''error'', JStr (message e))])], isError = Some True\<rparr>)
   \<and> (snd (sse_callTool_switch cfg b nm args) = Inr v \<longrightarrow>
      snd (sse_callTool cfg b nm args) = \<lparr>content = [TextContent v], isError = None\<rparr>)
   \<and> (isError (snd (sse_callTool cfg b nm args)) = Some True \<longleftrightarrow>
      (\<exists>e'. snd (sse_callTool_switch cfg b nm args) = Inl e'))"
  using callTool_unknown [of nm cfg b args] sse_callTool_unknown [of nm cfg b args]
    callTool_failure [of cfg b nm args e] sse_callTool_failure [of cfg b nm args e]
    callTool_success [of cfg b nm args v] sse_callTool_success [of cfg b nm args v]
    callTool_isError [of cfg b nm args] sse_callTool_isError [of cfg b nm args]
  by (simp add: error_envelope_def success_envelope_def)

text \<open>
  An unknown name, an identifier that resolves to no document, a search against an engine
  that cannot be reached, a hit whose highlighted content is a number, a tag listing, a
  document found by its identifier, and \<^verbatim>\<open>list_tags\<close> asked of the SSE binding, whose
  registry does not have it.
\<close>

theorem callTool_one_envelope_witness:
  "''delete_all'' \<notin> set (map name tools)
   \<and> callTool default_config empty_backend ''delete_all'' no_args =
       ([], \<lparr>content = [TextContent (JObj [(''error'', JStr ''Unknown tool: delete_all'')])],
             isError = Some True\<rparr>)
   \<and> snd (callTool_switch default_config empty_backend ''get_document''
         (no_args\<lparr>id_arg := Some ''nope''\<rparr>)) = Inl (JsError ''Document not found: nope'')
   \<and> snd (callTool default_config empty_backend ''get_document''
         (no_args\<lparr>id_arg := Some ''nope''\<rparr>)) =
       \<lparr>content = [TextContent (JObj [(''error'', JStr ''Document not found: nope'')])],
        isError = Some True\<rparr>
   \<and> snd (sse_callTool_switch default_config
         (fixed_backend no_document (Inl (MeiliUnavailable ''connect ECONNREFUSED'')))
         ''search_docs'' (no_args\<lparr>query_arg := Some ''redis''\<rparr>)) =
       Inl (MeiliUnavailable ''connect ECONNREFUSED'')
   \<and> snd (sse_callTool default_config
         (fixed_backend no_document (Inl (MeiliUnavailable ''connect ECONNREFUSED'')))
         ''search_docs'' (no_args\<lparr>query_arg := Some ''redis''\<rparr>)) =
       \<lparr>content = [TextContent (JObj [(''error'', JStr ''connect ECONNREFUSED'')])],
        isError = Some True\<rparr>
   \<and> snd (callTool_switch default_config
         (fixed_backend no_document
            (Inr (response_of [[(''_formatted'', JObj [(''content'', JNum 42)])]])))
         ''search_docs'' (no_args\<lparr>query_arg := Some ''redis''\<rparr>)) =
       Inl (JsTypeError ''hit._formatted?.content?.slice is not a function'')
   \<and> snd (callTool default_config
         (fixed_backend no_document
            (Inr (response_of [[(''_formatted'', JObj [(''content'', JNum 42)])]])))
         ''search_docs'' (no_args\<lparr>query_arg := Some ''redis''\<rparr>)) =
       \<lparr>content = [TextContent (JObj
          [(''error'', JStr ''hit._formatted?.content?.slice is not a function'')])],
        isError = Some True\<rparr>
   \<and> snd (callTool_switch default_config empty_backend ''list_tags'' no_args) =
       Inr (JObj [(''tags'', JArr [])])
   \<and> snd (callTool default_config empty_backend ''list_tags'' no_args) =
       \<lparr>content = [TextContent (JObj [(''tags'', JArr [])])], isError = None\<rparr>
   \<and> snd (sse_callTool_switch default_config
         (fixed_backend (Inr (JObj hit_plain)) (Inr (response_of [])))
         ''get_document'' (no_args\<lparr>id_arg := Some ''note-3''\<rparr>)) = Inr (JObj hit_plain)
   \<and> snd (sse_callTool default_config
         (fixed_backend (Inr (JObj hit_plain)) (Inr (response_of [])))
         ''get_document'' (no_args\<lparr>id_arg := Some ''note-3''\<rparr>)) =
       \<lparr>content = [TextContent (JObj hit_plain)], isError = None\<rparr>
   \<and> ''list_tags'' \<notin> set (map name sse_tools)
   \<and> sse_callTool default_config empty_backend ''list_tags'' no_args =
       ([], \<lparr>content = [TextContent (JObj [(''error'', JStr ''Unknown tool: list_tags'')])],
             isError = Some True\<rparr>)"
proof -
  have u: "''delete_all'' \<notin> set (map name tools)" "''list_tags'' \<notin> set (map name sse_tools)"
    by (simp_all add: tool_names sse_tool_names)
  have g: "snd (callTool_switch default_config empty_backend ''get_document''
         (no_args\<lparr>id_arg := Some ''nope''\<rparr>)) = Inl (JsError ''Document not found: nope'')"
    by (simp add: callTool_switch_def handleGetDocument_def Let_def empty_backend_def
        fixed_backend_def no_document_def response_of_def template_str_def)
  have s: "snd (sse_callTool_switch default_config
         (fixed_backend no_document (Inl (MeiliUnavailable ''connect ECONNREFUSED'')))
         ''search_docs'' (no_args\<lparr>query_arg := Some ''redis''\<rparr>)) =
       Inl (MeiliUnavailable ''connect ECONNREFUSED'')"
    by (simp add: sse_callTool_switch_def sse_handleSearchDocs_def Let_def fixed_backend_def
        wrap_def)
  have y: "snd (callTool_switch default_config
         (fixed_backend no_document
            (Inr (response_of [[(''_formatted'', JObj [(''content'', JNum 42)])]])))
         ''search_docs'' (no_args\<lparr>query_arg := Some ''redis''\<rparr>)) =
       Inl (JsTypeError ''hit._formatted?.content?.slice is not a function'')"
    by (simp add: callTool_switch_def handleSearchDocs_def Let_def fixed_backend_def wrap_def
        response_of_def normalize_doc_def snippet_def get_prop_def)
  have t: "snd (callTool_switch default_config empty_backend ''list_tags'' no_args) =
       Inr (JObj [(''tags'', JArr [])])"
    by (simp add: callTool_switch_def handleListTags_def Let_def empty_backend_def
        fixed_backend_def response_of_def tagCounts_def sorted_tags_def js_sort_def)
  have d: "snd (sse_callTool_switch default_config
         (fixed_backend (Inr (JObj hit_plain)) (Inr (response_of [])))
         ''get_document'' (no_args\<lparr>id_arg := Some ''note-3''\<rparr>)) = Inr (JObj hit_plain)"
    by (simp add: sse_callTool_switch_def sse_handleGetDocument_def Let_def fixed_backend_def)
  show ?thesis
    using u g s y t d
      callTool_one_envelope [where nm = "''delete_all''" and cfg = default_config
        and b = empty_backend and args = no_args]
      callTool_one_envelope [where nm = "''get_document''" and cfg = default_config
        and b = empty_backend and args = "no_args\<lparr>id_arg := Some ''nope''\<rparr>"
        and e = "JsError ''Document not found: nope''"]
      callTool_one_envelope [where nm = "''search_docs''" and cfg = default_config
        and b = "fixed_backend no_document (Inl (MeiliUnavailable ''connect ECONNREFUSED''))"
        and args = "no_args\<lparr>query_arg := Some ''redis''\<rparr>"
        and e = "MeiliUnavailable ''connect ECONNREFUSED''"]
      callTool_one_envelope [where nm = "''search_docs''" and cfg = default_config
        and b = "fixed_backend no_document
            (Inr (response_of [[(''_formatted'', JObj [(''content'', JNum 42)])]]))"
        and args = "no_args\<lparr>query_arg := Some ''redis''\<rparr>"
        and e = "JsTypeError ''hit._formatted?.content?.slice is not a function''"]
      callTool_one_envelope [where nm = "''list_tags''" and cfg = default_config
        and b = empty_backend and args = no_args and v = "JObj [(''tags'', JArr [])]"]
      callTool_one_envelope [where nm = "''get_document''" and cfg = default_config
        and b = "fixed_backend (Inr (JObj hit_plain)) (Inr (response_of []))"
        and args = "no_args\<lparr>id_arg := Some ''note-3''\<rparr>" and v = "JObj hit_plain"]
    by simp
qed

subsection \<open>C9: list_tags sorts by count\<close>



subsection \<open>C10: list_tags without facet counts\<close>

text \<open>
  C10. When the answer of the backend has no facet distribution, or one with no entry for
  \<^verbatim>\<open>tags\<close>, \<^verbatim>\<open>list_tags\<close> returns \<^verbatim>\<open>{ tags: [] }\<close>.
\<close>

theorem list_tags_without_facets:
  assumes "search b (indexName cfg) (Some '''') tags_params = Inr r"
    and "facetDistribution r = None
         \<or> (\<exists>fd. facetDistribution r = Some fd \<and> map_of fd ''tags'' = None)"
  shows "snd (handleListTags cfg b) = Inr (JObj [(''tags'', JArr [])])"
proof -
  have "tagCounts r = []"
    using assms(2) by (auto simp add: tagCounts_def)
  then show ?thesis
    using handleListTags_ok [OF assms(1)]
    by (simp add: sorted_tags_def js_sort_def)
qed

text \<open>
  A backend that answers without a facet distribution, and one whose distribution has
  counts for another field only.
\<close>

theorem list_tags_without_facets_witness:
  "search empty_backend (indexName default_config) (Some '''') tags_params = Inr (response_of [])
   \<and> facetDistribution (response_of []) = None
   \<and> snd (handleListTags default_config empty_backend) = Inr (JObj [(''tags'', JArr [])])
   \<and> search other_facet_backend (indexName default_config) (Some '''') tags_params =
       Inr \<lparr>estimatedTotalHits = JNum 4, hits = [],
            facetDistribution = Some [(''category'', [(''runbook'', 4)])]\<rparr>
   \<and> map_of [(''category'', [(''runbook'', 4::int)])] ''tags'' = None
   \<and> snd (handleListTags default_config other_facet_backend) = Inr (JObj [(''tags'', JArr [])])"
proof -
  have s: "search empty_backend (indexName default_config) (Some '''') tags_params =
        Inr (response_of [])"
    by (simp add: empty_backend_def fixed_backend_def)
  have f: "facetDistribution (response_of []) = None"
    by (simp add: response_of_def)
  have s': "search other_facet_backend (indexName default_config) (Some '''') tags_params =
       Inr \<lparr>estimatedTotalHits = JNum 4, hits = [],
            facetDistribution = Some [(''category'', [(''runbook'', 4)])]\<rparr>"
    by (simp add: other_facet_backend_def fixed_backend_def)
  have f': "facetDistribution \<lparr>estimatedTotalHits = JNum 4, hits = [],
            facetDistribution = Some [(''category'', [(''runbook'', 4)])]\<rparr> = None
      \<or> (\<exists>fd. facetDistribution \<lparr>estimatedTotalHits = JNum 4, hits = [],
            facetDistribution = Some [(''category'', [(''runbook'', 4)])]\<rparr> = Some fd
            \<and> map_of fd ''tags'' = None)"
    by simp
  show ?thesis
    using s f s' list_tags_without_facets [OF s disjI1 [OF f]]
      list_tags_without_facets [OF s' f']
    by simp
qed

end
